theory Spec2Isabelle
  imports Complex_Main "HOL-Library.Sublist" "HOL-Library.AList"
begin

section \<open>tapa: durations, concurrency and attribution of Tekton runs\<close>

text \<open>
  The development follows the revision of the program that walks directory trees, offers
  the container-only analysis and the csv output. Two earlier revisions of the same file
  are modelled where they differ: the one whose \<open>parse...List\<close> functions read a single
  file (definitions with the suffix 1) and \<open>src/main.go\<close>, which keeps its maps local to
  each command (definitions with the suffix 0).
\<close>

subsection \<open>Time, durations and strings of the Go library\<close>

text \<open>
  A \<open>time.Time\<close> is an instant, counted here in nanoseconds from Go's zero time
  (January 1 of year 1, UTC), so that \<open>var t time.Time\<close> is \<open>0\<close>. A
  \<open>time.Duration\<close> is an \<open>int64\<close> of nanoseconds; \<open>Time.Sub\<close> saturates at its
  bounds. \<open>Duration.Seconds\<close> yields a \<open>float64\<close>; the model keeps the exact quotient
  as a rational number, so the rounding of \<open>float64\<close> is outside the model.
\<close>

type_synonym time = int
type_synonym duration = int

definition zeroTime :: time where
  "zeroTime = 0"

definition minDuration :: duration where
  "minDuration = - (2 ^ 63)"

definition maxDuration :: duration where
  "maxDuration = 2 ^ 63 - 1"

definition Sub :: "time \<Rightarrow> time \<Rightarrow> duration" where
  "Sub t u =
     (let d = t - u
      in if minDuration \<le> d \<and> d \<le> maxDuration then d
         else if t < u then minDuration
         else maxDuration)"

definition Seconds :: "duration \<Rightarrow> rat" where
  "Seconds d = of_int d / 1000000000"

definition After :: "time \<Rightarrow> time \<Rightarrow> bool" where
  "After t u = (u < t)"

definition Before :: "time \<Rightarrow> time \<Rightarrow> bool" where
  "Before t u = (t < u)"

definition HasPrefix :: "string \<Rightarrow> string \<Rightarrow> bool" where
  "HasPrefix s p = (length p \<le> length s \<and> take (length p) s = p)"

text \<open>\<open>fmt.Sprintf("%s:%s", ns, name)\<close>, the key of a pipeline run, task run or pod.\<close>

definition objKey :: "string \<Rightarrow> string \<Rightarrow> string" where
  "objKey ns name = ns @ '':'' @ name"

subsection \<open>Ownership\<close>

text \<open>
  \<open>prOwns\<close> of the revision that introduced the concurrency maps. The aggregation loop of
  \<open>ParseAllThreeLists\<close> matches with \<open>strings.HasPrefix(trKey, prkey)\<close> on the keys.
\<close>

definition prOwns :: "string \<Rightarrow> string \<Rightarrow> string \<Rightarrow> string \<Rightarrow> bool" where
  "prOwns kidns kidname prns prname =
     (if kidns \<noteq> prns then False
      else if \<not> HasPrefix kidname prname then False
      else True)"

subsection \<open>The package-level maps\<close>

text \<open>
  The program keeps, for each kind (pipeline run, task run, pod, container), five
  package-level variables: \<open>prStartTimes\<close>, \<open>prEndTimes\<close>, \<open>prToDuration\<close>,
  \<open>prDurations\<close>, \<open>prDurationsMap\<close> and their \<open>tr\<close>, \<open>pod\<close> and \<open>container\<close>
  namesakes. One record holds the five variables of a kind. A Go map is an association
  list with one entry per key: \<open>m[k] = v\<close> is \<open>AList.update\<close>, reading a missing key
  yields the zero value, and \<open>range\<close> visits the entries in list order. Go leaves that
  order open; in the results it decides only the order of the rows inside a group of
  equal durations.
\<close>

record kind_maps =
  startTimes :: "(string \<times> time) list"
  endTimes :: "(string \<times> time) list"
  toDuration :: "(string \<times> rat) list"
  durations :: "rat list"
  durationsMap :: "rat set"

text \<open>The values the variables have when the process starts.\<close>

definition no_maps :: kind_maps where
  "no_maps = \<lparr>startTimes = [], endTimes = [], toDuration = [], durations = [],
     durationsMap = {}\<rparr>"

definition lookupTime :: "(string \<times> time) list \<Rightarrow> string \<Rightarrow> time" where
  "lookupTime m k = (case map_of m k of None \<Rightarrow> zeroTime | Some t \<Rightarrow> t)"

text \<open>
  The statements that \<open>processPipelineRun\<close>, \<open>processTaskRun\<close>, \<open>processPod\<close> and the
  loop body of \<open>processContainers\<close> share: store the duration under the key, append it to
  the list of durations unless the set already has it, store start and end.
\<close>

definition recordWindow :: "string \<Rightarrow> time \<Rightarrow> time \<Rightarrow> kind_maps \<Rightarrow> kind_maps" where
  "recordWindow key started finished m =
     (let duration = Sub finished started;
          m1 = m\<lparr>toDuration := AList.update key (Seconds duration) (toDuration m)\<rparr>;
          m2 = (if Seconds duration \<in> durationsMap m1 then m1
                else m1\<lparr>durations := durations m1 @ [Seconds duration],
                        durationsMap := insert (Seconds duration) (durationsMap m1)\<rparr>)
      in m2\<lparr>startTimes := AList.update key started (startTimes m2),
             endTimes := AList.update key finished (endTimes m2)\<rparr>)"

text \<open>A loop that records one window (key, start, end) after the other.\<close>

definition recordWindows :: "(string \<times> time \<times> time) list \<Rightarrow> kind_maps \<Rightarrow> kind_maps" where
  "recordWindows ws m = foldl (\<lambda>m (key, started, finished). recordWindow key started finished m) m ws"

text \<open>
  The list of durations and the set that guards it agree, and the list has no value
  twice: the state every call of the program finds.
\<close>

definition coherent :: "kind_maps \<Rightarrow> bool" where
  "coherent m = (durationsMap m = set (durations m) \<and> distinct (durations m))"

subsection \<open>Concurrency\<close>

fun innerLoop ::
  "string \<Rightarrow> time \<Rightarrow> time \<Rightarrow> (string \<times> time) list \<Rightarrow> (string \<times> time) list \<Rightarrow> int \<Rightarrow> int" where
  "innerLoop key st en [] ends count = count"
| "innerLoop key st en ((k, start) # rest) ends count =
     (if k = key then innerLoop key st en rest ends count
      else let finish = lookupTime ends k
           in if start = st \<and> finish = en then innerLoop key st en rest ends (count + 1)
              else if Before start en \<and> After finish st
                   then innerLoop key st en rest ends (count + 1)
                   else innerLoop key st en rest ends count)"

definition innerConcurrency ::
  "string \<Rightarrow> (string \<times> time) list \<Rightarrow> (string \<times> time) list \<Rightarrow> int" where
  "innerConcurrency key starts ends =
     innerLoop key (lookupTime starts key) (lookupTime ends key) starts ends 1"

subsection \<open>Ranking by duration\<close>

text \<open>
  The three result slices of a \<open>parse...List\<close> function are appended to together; they are
  kept as one list of rows (key, seconds, concurrency). A failed read returns the message
  and \<open>false\<close>.
\<close>

type_synonym row = "string \<times> rat \<times> int"

datatype flat = ReadFailure string | Rows "row list"

definition rankGroup :: "kind_maps \<Rightarrow> rat \<Rightarrow> row list" where
  "rankGroup m duration =
     map (\<lambda>(key, value). (key, value, innerConcurrency key (startTimes m) (endTimes m)))
       (filter (\<lambda>(key, value). value = duration) (toDuration m))"

definition rankRows :: "kind_maps \<Rightarrow> row list" where
  "rankRows m = concat (map (rankGroup m) (durations m))"

definition sortDurations :: "kind_maps \<Rightarrow> kind_maps" where
  "sortDurations m = m\<lparr>durations := sort (durations m)\<rparr>"

subsection \<open>Reading files\<close>

text \<open>
  \<open>filepath.Walk\<close> calls the function it is given once per path under the root and stops
  at the first error the function returns. What the file system and the decoder answer
  for a path is the input: the walk reports an error for it, it is a directory, it cannot
  be read, it does not decode, or it decodes into a list of items. Printing to standard
  error appends to a list of messages.
\<close>

datatype 'a visit =
    WalkError string string
  | Directory string
  | Unreadable string string
  | Undecodable string
  | Document string "'a list"

fun Walk ::
  "'a visit list \<Rightarrow> ('a visit \<Rightarrow> 's \<Rightarrow> string option \<times> 's) \<Rightarrow> 's \<Rightarrow> string option \<times> 's" where
  "Walk [] fn s = (None, s)"
| "Walk (v # vs) fn s =
     (case fn v s of
        (Some e, s') \<Rightarrow> (Some e, s')
      | (None, s') \<Rightarrow> Walk vs fn s')"

text \<open>
  The function literal passed to \<open>filepath.Walk\<close> by \<open>processPRFiles\<close>, \<open>processTRFiles\<close>
  and \<open>processPodFiles\<close>, which differ in the item type and the kind they keep.
\<close>

fun walkFn ::
  "('a \<Rightarrow> string) \<Rightarrow> string \<Rightarrow> 'a visit \<Rightarrow> 'a list \<times> string list
     \<Rightarrow> string option \<times> ('a list \<times> string list)" where
  "walkFn kindOf kind (WalkError path err) (items, out) =
     (None, (items, out @ [''filepath walk error: '' @ err @ [CHR 0x0A]]))"
| "walkFn kindOf kind (Directory path) (items, out) = (None, (items, out))"
| "walkFn kindOf kind (Unreadable path e) (items, out) =
     (None, (items, out @ [''problem reading '' @ path @ '': '' @ e @ [CHR 0x0A]]))"
| "walkFn kindOf kind (Undecodable path) (items, out) = (None, (items, out))"
| "walkFn kindOf kind (Document path l) (items, out) =
     (None, (items @ filter (\<lambda>x. kindOf x = kind) l, out))"

text \<open>What a walk keeps of one path, and what it prints about it.\<close>

definition kept :: "('a \<Rightarrow> string) \<Rightarrow> string \<Rightarrow> 'a visit \<Rightarrow> 'a list" where
  "kept kindOf kind v =
     (case v of Document path l \<Rightarrow> filter (\<lambda>x. kindOf x = kind) l | _ \<Rightarrow> [])"

definition printed :: "'a visit \<Rightarrow> string list" where
  "printed v =
     (case v of
        WalkError path err \<Rightarrow> [''filepath walk error: '' @ err @ [CHR 0x0A]]
      | Unreadable path e \<Rightarrow> [''problem reading '' @ path @ '': '' @ e @ [CHR 0x0A]]
      | _ \<Rightarrow> [])"

subsection \<open>Pipeline runs\<close>

datatype ConditionStatus = ConditionTrue | ConditionFalse | ConditionUnknown

record ObjectMeta =
  Namespace :: string
  Name :: string
  Labels :: "(string \<times> string) list"

record RunStatus =
  StartTime :: "time option"
  CompletionTime :: "time option"
  Succeeded :: "ConditionStatus option"

record PipelineRun =
  pr_Kind :: string
  pr_Meta :: ObjectMeta
  pr_Status :: RunStatus

text \<open>
  \<open>HasStarted\<close> and \<open>IsDone\<close> of the Tekton API: the start time is set and not the zero
  time; the \<open>Succeeded\<close> condition is present and not \<open>Unknown\<close>.
\<close>

definition HasStarted :: "RunStatus \<Rightarrow> bool" where
  "HasStarted s = (case StartTime s of None \<Rightarrow> False | Some t \<Rightarrow> t \<noteq> zeroTime)"

definition IsDone :: "RunStatus \<Rightarrow> bool" where
  "IsDone s = (case Succeeded s of None \<Rightarrow> False | Some c \<Rightarrow> c \<noteq> ConditionUnknown)"

definition prKeyOf :: "PipelineRun \<Rightarrow> string" where
  "prKeyOf pr = objKey (Namespace (pr_Meta pr)) (Name (pr_Meta pr))"

definition ignorePipelineRun :: "PipelineRun \<Rightarrow> string \<Rightarrow> bool" where
  "ignorePipelineRun pr prFilter =
     (if length prFilter > 0 \<and> prKeyOf pr \<noteq> prFilter then True
      else if \<not> HasStarted (pr_Status pr) then True
      else if \<not> IsDone (pr_Status pr) then True
      else False)"

text \<open>
  Reading through a nil \<open>StartTime\<close> or \<open>CompletionTime\<close> is a run-time panic. The
  duration that the Go function also returns is dropped by every caller.
\<close>

datatype error = NilPointerDereference

definition processPipelineRun :: "PipelineRun \<Rightarrow> kind_maps \<Rightarrow> error + kind_maps" where
  "processPipelineRun pr m =
     (case CompletionTime (pr_Status pr) of
        None \<Rightarrow> Inl NilPointerDereference
      | Some completion \<Rightarrow>
          (case StartTime (pr_Status pr) of
             None \<Rightarrow> Inl NilPointerDereference
           | Some start \<Rightarrow> Inr (recordWindow (prKeyOf pr) start completion m)))"

text \<open>The window \<open>processPipelineRun\<close> records for a run that has both times.\<close>

definition prWindow :: "PipelineRun \<Rightarrow> string \<times> time \<times> time" where
  "prWindow pr =
     (prKeyOf pr, the (StartTime (pr_Status pr)), the (CompletionTime (pr_Status pr)))"


definition processPRFiles ::
  "PipelineRun visit list \<Rightarrow> PipelineRun list \<times> string option \<times> string list" where
  "processPRFiles visits =
     (case Walk visits (walkFn pr_Kind ''PipelineRun'') ([], []) of
        (err, (items, out)) \<Rightarrow> (items, err, out))"

fun prLoop :: "PipelineRun list \<Rightarrow> string \<Rightarrow> kind_maps \<Rightarrow> error + kind_maps" where
  "prLoop [] prFilter m = Inr m"
| "prLoop (pr # rest) prFilter m =
     (if ignorePipelineRun pr prFilter then prLoop rest prFilter m
      else case processPipelineRun pr m of
             Inl e \<Rightarrow> Inl e
           | Inr m' \<Rightarrow> prLoop rest prFilter m')"

text \<open>
  \<open>parsePipelineRunList\<close>: the result, the maps as the call leaves them, and what was
  printed to standard error.
\<close>

definition parsePipelineRunList ::
  "string \<Rightarrow> PipelineRun visit list \<Rightarrow> string \<Rightarrow> kind_maps
     \<Rightarrow> error + (flat \<times> kind_maps \<times> string list)" where
  "parsePipelineRunList fileName visits prFilter m =
     (case processPRFiles visits of
        (prList, Some err, out) \<Rightarrow>
          Inr (ReadFailure (''ERROR: problem reading file '' @ fileName @ '': '' @ err
                 @ [CHR 0x0A]), m, out)
      | (prList, None, out) \<Rightarrow>
          (case prLoop prList prFilter m of
             Inl e \<Rightarrow> Inl e
           | Inr m1 \<Rightarrow>
               (let m2 = sortDurations m1 in Inr (Rows (rankRows m2), m2, out))))"

subsection \<open>Task runs\<close>

record TaskRun =
  tr_Kind :: string
  tr_Meta :: ObjectMeta
  tr_Status :: RunStatus

definition trKeyOf :: "TaskRun \<Rightarrow> string" where
  "trKeyOf tr = objKey (Namespace (tr_Meta tr)) (Name (tr_Meta tr))"

definition ignoreTaskRun :: "TaskRun \<Rightarrow> string \<Rightarrow> bool" where
  "ignoreTaskRun tr prFilter =
     (if \<not> HasStarted (tr_Status tr) then True
      else if \<not> IsDone (tr_Status tr) then True
      else if length prFilter > 0 \<and> \<not> HasPrefix (trKeyOf tr) prFilter then True
      else False)"

definition processTaskRun :: "TaskRun \<Rightarrow> kind_maps \<Rightarrow> error + kind_maps" where
  "processTaskRun tr m =
     (case CompletionTime (tr_Status tr) of
        None \<Rightarrow> Inl NilPointerDereference
      | Some completion \<Rightarrow>
          (case StartTime (tr_Status tr) of
             None \<Rightarrow> Inl NilPointerDereference
           | Some start \<Rightarrow> Inr (recordWindow (trKeyOf tr) start completion m)))"

text \<open>The window \<open>processTaskRun\<close> records for a task run that has both times.\<close>

definition trWindow :: "TaskRun \<Rightarrow> string \<times> time \<times> time" where
  "trWindow tr =
     (trKeyOf tr, the (StartTime (tr_Status tr)), the (CompletionTime (tr_Status tr)))"

definition processTRFiles ::
  "TaskRun visit list \<Rightarrow> TaskRun list \<times> string option \<times> string list" where
  "processTRFiles visits =
     (case Walk visits (walkFn tr_Kind ''TaskRun'') ([], []) of
        (err, (items, out)) \<Rightarrow> (items, err, out))"

fun trLoop :: "TaskRun list \<Rightarrow> string \<Rightarrow> kind_maps \<Rightarrow> error + kind_maps" where
  "trLoop [] prFilter m = Inr m"
| "trLoop (tr # rest) prFilter m =
     (if ignoreTaskRun tr prFilter then trLoop rest prFilter m
      else case processTaskRun tr m of
             Inl e \<Rightarrow> Inl e
           | Inr m' \<Rightarrow> trLoop rest prFilter m')"

definition parseTaskRunList ::
  "string \<Rightarrow> TaskRun visit list \<Rightarrow> string \<Rightarrow> kind_maps
     \<Rightarrow> error + (flat \<times> kind_maps \<times> string list)" where
  "parseTaskRunList fileName visits prFilter m =
     (case processTRFiles visits of
        (trList, Some err, out) \<Rightarrow>
          Inr (ReadFailure (''ERROR: file '' @ fileName
                 @ '' not marshalling into a TaskRun list: '' @ err @ [CHR 0x0A]), m, out)
      | (trList, None, out) \<Rightarrow>
          (case trLoop trList prFilter m of
             Inl e \<Rightarrow> Inl e
           | Inr m1 \<Rightarrow>
               (let m2 = sortDurations m1 in Inr (Rows (rankRows m2), m2, out))))"

subsection \<open>Pods and containers\<close>

datatype PodPhase = PodPending | PodRunning | PodSucceeded | PodFailed | PodUnknown

record ContainerStateTerminated =
  StartedAt :: time
  FinishedAt :: time

record ContainerStatus =
  cs_Name :: string
  Terminated :: "ContainerStateTerminated option"

record Container =
  c_Name :: string

record Pod =
  pod_Kind :: string
  pod_Meta :: ObjectMeta
  Containers :: "Container list"
  pod_StartTime :: "time option"
  Phase :: PodPhase
  ContainerStatuses :: "ContainerStatus list"

definition podKeyOf :: "Pod \<Rightarrow> string" where
  "podKeyOf pod = objKey (Namespace (pod_Meta pod)) (Name (pod_Meta pod))"

definition ignorePod :: "Pod \<Rightarrow> string \<Rightarrow> bool" where
  "ignorePod pod prFilter =
     (if pod_StartTime pod = None then True
      else if Phase pod \<noteq> PodSucceeded \<and> Phase pod \<noteq> PodFailed then True
      else if map_of (Labels (pod_Meta pod)) ''tekton.dev/pipelineRun'' = None then True
      else if length prFilter > 0 \<and> \<not> HasPrefix (podKeyOf pod) prFilter then True
      else False)"

text \<open>The first loop of \<open>processPod\<close>, over the container statuses.\<close>

fun terminatedTime :: "ContainerStatus list \<Rightarrow> time \<Rightarrow> time" where
  "terminatedTime [] t = t"
| "terminatedTime (status # rest) t =
     (case Terminated status of
        None \<Rightarrow> terminatedTime rest t
      | Some terminated \<Rightarrow>
          if After (FinishedAt terminated) t then terminatedTime rest (FinishedAt terminated)
          else terminatedTime rest t)"

definition processPod :: "Pod \<Rightarrow> kind_maps \<Rightarrow> error + kind_maps" where
  "processPod pod m =
     (case pod_StartTime pod of
        None \<Rightarrow> Inl NilPointerDereference
      | Some start \<Rightarrow>
          Inr (recordWindow (podKeyOf pod) start
                 (terminatedTime (ContainerStatuses pod) zeroTime) m))"

text \<open>The window \<open>processPod\<close> records for a pod that has a start time.\<close>

definition podWindow :: "Pod \<Rightarrow> string \<times> time \<times> time" where
  "podWindow pod =
     (podKeyOf pod, the (pod_StartTime pod), terminatedTime (ContainerStatuses pod) zeroTime)"

text \<open>
  \<open>processContainers\<close>. \<open>specNameToIndex\<close> and \<open>statusNameToIndex\<close> are filled in slice
  order, a later entry of the same name replacing the earlier; a missing name reads as
  index 0.
\<close>

fun nameToIndex :: "string list \<Rightarrow> nat \<Rightarrow> (string \<times> nat) list \<Rightarrow> (string \<times> nat) list" where
  "nameToIndex [] index m = m"
| "nameToIndex (name # rest) index m = nameToIndex rest (Suc index) (AList.update name index m)"

definition lookupIndex :: "(string \<times> nat) list \<Rightarrow> string \<Rightarrow> nat" where
  "lookupIndex m k = (case map_of m k of None \<Rightarrow> 0 | Some i \<Rightarrow> i)"

definition containerKey :: "Pod \<Rightarrow> string \<Rightarrow> string" where
  "containerKey pod name =
     Namespace (pod_Meta pod) @ '':'' @ Name (pod_Meta pod) @ ''-'' @ name"

definition windowStart :: "Pod \<Rightarrow> ContainerStatus \<Rightarrow> ContainerStateTerminated \<Rightarrow> time" where
  "windowStart pod cstatus terminated =
     (let specNameToIndex = nameToIndex (map c_Name (Containers pod)) 0 [];
          statusNameToIndex = nameToIndex (map cs_Name (ContainerStatuses pod)) 0 [];
          started = StartedAt terminated;
          specIndex = lookupIndex specNameToIndex (cs_Name cstatus)
      in if specIndex \<noteq> 0
         then (let priorContainerName = c_Name (Containers pod ! (specIndex - 1));
                   priorContainerStatusIndex = lookupIndex statusNameToIndex priorContainerName;
                   priorContainerStatus = ContainerStatuses pod ! priorContainerStatusIndex
               in case Terminated priorContainerStatus of
                    Some prior \<Rightarrow> FinishedAt prior
                  | None \<Rightarrow> started)
         else started)"

fun containerLoop :: "Pod \<Rightarrow> ContainerStatus list \<Rightarrow> kind_maps \<Rightarrow> kind_maps" where
  "containerLoop pod [] m = m"
| "containerLoop pod (cstatus # rest) m =
     (case Terminated cstatus of
        None \<Rightarrow> containerLoop pod rest m
      | Some terminated \<Rightarrow>
          containerLoop pod rest
            (recordWindow (containerKey pod (cs_Name cstatus))
               (windowStart pod cstatus terminated) (FinishedAt terminated) m))"

definition processContainers :: "Pod \<Rightarrow> kind_maps \<Rightarrow> kind_maps" where
  "processContainers pod m = containerLoop pod (ContainerStatuses pod) m"

text \<open>The windows \<open>processContainers\<close> records for a pod, in the order of the statuses.\<close>

definition containerWindows :: "Pod \<Rightarrow> (string \<times> time \<times> time) list" where
  "containerWindows pod =
     concat (map (\<lambda>cstatus. case Terminated cstatus of
                    None \<Rightarrow> []
                  | Some terminated \<Rightarrow>
                      [(containerKey pod (cs_Name cstatus), windowStart pod cstatus terminated,
                        FinishedAt terminated)])
              (ContainerStatuses pod))"

definition processPodFiles :: "Pod visit list \<Rightarrow> Pod list \<times> string option \<times> string list" where
  "processPodFiles visits =
     (case Walk visits (walkFn pod_Kind ''Pod'') ([], []) of
        (err, (items, out)) \<Rightarrow> (items, err, out))"

text \<open>The pod maps and the container maps travel as a pair through \<open>parsePodList\<close>.\<close>

fun podLoop ::
  "Pod list \<Rightarrow> string \<Rightarrow> bool \<Rightarrow> kind_maps \<times> kind_maps \<Rightarrow> error + (kind_maps \<times> kind_maps)" where
  "podLoop [] prFilter containerOnly (pm, cm) = Inr (pm, cm)"
| "podLoop (pod # rest) prFilter containerOnly (pm, cm) =
     (if ignorePod pod prFilter then podLoop rest prFilter containerOnly (pm, cm)
      else if \<not> containerOnly
      then (case processPod pod pm of
              Inl e \<Rightarrow> Inl e
            | Inr pm' \<Rightarrow> podLoop rest prFilter containerOnly (pm', cm))
      else podLoop rest prFilter containerOnly (pm, processContainers pod cm))"

definition parsePodList ::
  "string \<Rightarrow> Pod visit list \<Rightarrow> string \<Rightarrow> bool \<Rightarrow> kind_maps \<times> kind_maps
     \<Rightarrow> error + (flat \<times> (kind_maps \<times> kind_maps) \<times> string list)" where
  "parsePodList fileName visits prFilter containerOnly maps =
     (case processPodFiles visits of
        (podList, Some err, out) \<Rightarrow>
          Inr (ReadFailure (''ERROR: file '' @ fileName @ '' not marshalling into a Pod list: ''
                 @ err @ [CHR 0x0A]), maps, out)
      | (podList, None, out) \<Rightarrow>
          (case podLoop podList prFilter containerOnly maps of
             Inl e \<Rightarrow> Inl e
           | Inr (pm, cm) \<Rightarrow>
               (if \<not> containerOnly
                then (let pm2 = sortDurations pm in Inr (Rows (rankRows pm2), (pm2, cm), out))
                else (let cm2 = sortDurations cm in Inr (Rows (rankRows cm2), (pm, cm2), out)))))"

subsection \<open>Aggregation\<close>

text \<open>
  The body of the loop over the pipeline-run rows in \<open>ParseAllThreeLists\<close>. A \<open>float64\<close>
  division by zero does not panic: it yields an infinity or NaN.
\<close>

datatype quotient = Ratio rat | PosInf | NegInf | NaN

definition fdiv :: "rat \<Rightarrow> rat \<Rightarrow> quotient" where
  "fdiv x y =
     (if y \<noteq> 0 then Ratio (x / y)
      else if 0 < x then PosInf
      else if x < 0 then NegInf
      else NaN)"

fun trTotals :: "string \<Rightarrow> row list \<Rightarrow> rat \<times> int \<Rightarrow> rat \<times> int" where
  "trTotals prkey [] (totalTRDuration, maxTRConcurrency) = (totalTRDuration, maxTRConcurrency)"
| "trTotals prkey ((trKey, d, c) # rest) (totalTRDuration, maxTRConcurrency) =
     (if \<not> HasPrefix trKey prkey then trTotals prkey rest (totalTRDuration, maxTRConcurrency)
      else trTotals prkey rest
             (totalTRDuration + d, if c > maxTRConcurrency then c else maxTRConcurrency))"

fun podTotals :: "string \<Rightarrow> row list \<Rightarrow> rat \<times> int \<Rightarrow> rat \<times> int" where
  "podTotals prkey [] (totalPodDuration, maxPodConcurrency) = (totalPodDuration, maxPodConcurrency)"
| "podTotals prkey ((podKey, d, c) # rest) (totalPodDuration, maxPodConcurrency) =
     (if \<not> HasPrefix podKey prkey then podTotals prkey rest (totalPodDuration, maxPodConcurrency)
      else (let maxPodConcurrency' = maxPodConcurrency + c
            in podTotals prkey rest
                 (totalPodDuration + d,
                  if c > maxPodConcurrency' then c else maxPodConcurrency')))"

record line =
  l_key :: string
  l_duration :: rat
  l_concurrency :: int
  taskRunsDuration :: rat
  taskRunsDelta :: rat
  taskRunsPercentage :: quotient
  taskRunsMaxConcurrency :: int
  podsDuration :: rat
  podsDelta :: rat
  podsPercentage :: quotient
  podsMaxConcurrency :: int

definition aggregateLine :: "row \<Rightarrow> row list \<Rightarrow> row list \<Rightarrow> line" where
  "aggregateLine pr trRows podRows =
     (case pr of (prkey, prDuration, prConcurency) \<Rightarrow>
        (case trTotals prkey trRows (0, 0) of (totalTRDuration, maxTRConcurrency) \<Rightarrow>
           (case podTotals prkey podRows (0, 0) of (totalPodDuration, maxPodConcurrency) \<Rightarrow>
              \<lparr>l_key = prkey, l_duration = prDuration, l_concurrency = prConcurency,
               taskRunsDuration = totalTRDuration,
               taskRunsDelta = prDuration - totalTRDuration,
               taskRunsPercentage = fdiv totalTRDuration prDuration,
               taskRunsMaxConcurrency = maxTRConcurrency,
               podsDuration = totalPodDuration,
               podsDelta = prDuration - totalPodDuration,
               podsPercentage = fdiv totalPodDuration prDuration,
               podsMaxConcurrency = maxPodConcurrency\<rparr>)))"

definition aggregateLines :: "row list \<Rightarrow> row list \<Rightarrow> row list \<Rightarrow> line list" where
  "aggregateLines prRows trRows podRows = map (\<lambda>pr. aggregateLine pr trRows podRows) prRows"

subsection \<open>The command for all three lists\<close>

text \<open>
  The \<open>Run\<close> function of \<open>ParseAllThreeLists\<close>. The file system answers \<open>os.Stat\<close> with an
  error text or with whether the path is a directory, and answers each walk with its
  visits; the same path decodes differently for each kind. The result is what was printed
  to standard error, the values of the lines printed to standard output (their rendering
  as text or csv and the csv header are left out), and the package-level maps. The
  \<open>containers-only\<close> flag belongs to the pod-list command, so here the variable has its
  initial value \<open>false\<close>.
\<close>

record files =
  Stat :: "string \<Rightarrow> string + bool"
  prFiles :: "string \<Rightarrow> PipelineRun visit list"
  trFiles :: "string \<Rightarrow> TaskRun visit list"
  podFiles :: "string \<Rightarrow> Pod visit list"

record globals =
  prMaps :: kind_maps
  trMaps :: kind_maps
  podMaps :: kind_maps
  containerMaps :: kind_maps

definition notEnoughArguments :: string where
  "notEnoughArguments =
     ''ERROR: not enough arguments: all <pr file location> <tr file location> <pod file location> [<options>]''
     @ [CHR 0x0A]"

definition ParseAllThreeLists ::
  "files \<Rightarrow> string list \<Rightarrow> globals \<Rightarrow> error + (string list \<times> line list \<times> globals)" where
  "ParseAllThreeLists fs args g =
     (if length args < 1 then Inr ([notEnoughArguments], [], g)
      else case Stat fs (args ! 0) of
        Inl err \<Rightarrow>
          Inr ([''ERROR: could not analyze file '' @ args ! 0 @ '': '' @ err @ [CHR 0x0A]], [], g)
      | Inr isDir \<Rightarrow>
          if length args < 3 \<and> \<not> isDir then Inr ([notEnoughArguments], [], g)
          else
            (let prFileName = args ! 0;
                 trFileName = (if \<not> isDir then args ! 1 else args ! 0);
                 podFileName = (if \<not> isDir then args ! 2 else args ! 0)
             in case parsePipelineRunList prFileName (prFiles fs prFileName) [] (prMaps g) of
                  Inl e \<Rightarrow> Inl e
                | Inr (ReadFailure s, m1, out1) \<Rightarrow> Inr (out1 @ [s], [], g\<lparr>prMaps := m1\<rparr>)
                | Inr (Rows retS1, m1, out1) \<Rightarrow>
                    (case parseTaskRunList trFileName (trFiles fs trFileName) [] (trMaps g) of
                       Inl e \<Rightarrow> Inl e
                     | Inr (ReadFailure s, m2, out2) \<Rightarrow>
                         Inr (out1 @ out2 @ [s], [], g\<lparr>prMaps := m1, trMaps := m2\<rparr>)
                     | Inr (Rows retS2, m2, out2) \<Rightarrow>
                         (case parsePodList podFileName (podFiles fs podFileName) [] False
                                 (podMaps g, containerMaps g) of
                            Inl e \<Rightarrow> Inl e
                          | Inr (ReadFailure s, (pm, cm), out3) \<Rightarrow>
                              Inr (out1 @ out2 @ out3 @ [s], [],
                                   g\<lparr>prMaps := m1, trMaps := m2, podMaps := pm,
                                     containerMaps := cm\<rparr>)
                          | Inr (Rows retS3, (pm, cm), out3) \<Rightarrow>
                              Inr (out1 @ out2 @ out3, aggregateLines retS1 retS2 retS3,
                                   g\<lparr>prMaps := m1, trMaps := m2, podMaps := pm,
                                     containerMaps := cm\<rparr>)))))"

subsection \<open>The revision whose \<open>parse...List\<close> functions read a single file\<close>

text \<open>
  The revision just before directory walking has the same maps, the same \<open>ignore...\<close>
  and \<open>process...\<close> functions and the same aggregation loop; its \<open>parse...List\<close>
  functions read one file with \<open>os.ReadFile\<close> and decode it, and return the message and
  \<open>false\<close> when either step fails. It has no container analysis. Its definitions carry
  the suffix 1.
\<close>

datatype 'a readResult = ReadFails string | UnmarshalFails string | Unmarshalled "'a list"

definition parsePipelineRunList1 ::
  "string \<Rightarrow> PipelineRun readResult \<Rightarrow> string \<Rightarrow> kind_maps \<Rightarrow> error + (flat \<times> kind_maps)" where
  "parsePipelineRunList1 fileName file prFilter m =
     (case file of
        ReadFails err \<Rightarrow>
          Inr (ReadFailure (''ERROR: problem reading file '' @ fileName @ '': '' @ err
                 @ [CHR 0x0A]), m)
      | UnmarshalFails err \<Rightarrow>
          Inr (ReadFailure (''ERROR: file '' @ fileName
                 @ '' not marshalling into a PipelineRun list: '' @ err @ [CHR 0x0A]), m)
      | Unmarshalled items \<Rightarrow>
          (case prLoop items prFilter m of
             Inl e \<Rightarrow> Inl e
           | Inr m1 \<Rightarrow> (let m2 = sortDurations m1 in Inr (Rows (rankRows m2), m2))))"

definition parseTaskRunList1 ::
  "string \<Rightarrow> TaskRun readResult \<Rightarrow> string \<Rightarrow> kind_maps \<Rightarrow> error + (flat \<times> kind_maps)" where
  "parseTaskRunList1 fileName file prFilter m =
     (case file of
        ReadFails err \<Rightarrow>
          Inr (ReadFailure (''ERROR: problem reading file '' @ fileName @ '': '' @ err
                 @ [CHR 0x0A]), m)
      | UnmarshalFails err \<Rightarrow>
          Inr (ReadFailure (''ERROR: file '' @ fileName
                 @ '' not marshalling into a TaskRun list: '' @ err @ [CHR 0x0A]), m)
      | Unmarshalled items \<Rightarrow>
          (case trLoop items prFilter m of
             Inl e \<Rightarrow> Inl e
           | Inr m1 \<Rightarrow> (let m2 = sortDurations m1 in Inr (Rows (rankRows m2), m2))))"

fun podLoop1 :: "Pod list \<Rightarrow> string \<Rightarrow> kind_maps \<Rightarrow> error + kind_maps" where
  "podLoop1 [] prFilter m = Inr m"
| "podLoop1 (pod # rest) prFilter m =
     (if ignorePod pod prFilter then podLoop1 rest prFilter m
      else case processPod pod m of
             Inl e \<Rightarrow> Inl e
           | Inr m' \<Rightarrow> podLoop1 rest prFilter m')"

definition parsePodList1 ::
  "string \<Rightarrow> Pod readResult \<Rightarrow> string \<Rightarrow> kind_maps \<Rightarrow> error + (flat \<times> kind_maps)" where
  "parsePodList1 fileName file prFilter m =
     (case file of
        ReadFails err \<Rightarrow>
          Inr (ReadFailure (''ERROR: problem reading file '' @ fileName @ '': '' @ err
                 @ [CHR 0x0A]), m)
      | UnmarshalFails err \<Rightarrow>
          Inr (ReadFailure (''ERROR: file '' @ fileName
                 @ '' not marshalling into a Pod list: '' @ err @ [CHR 0x0A]), m)
      | Unmarshalled items \<Rightarrow>
          (case podLoop1 items prFilter m of
             Inl e \<Rightarrow> Inl e
           | Inr m1 \<Rightarrow> (let m2 = sortDurations m1 in Inr (Rows (rankRows m2), m2))))"

record files1 =
  prFile :: "string \<Rightarrow> PipelineRun readResult"
  trFile :: "string \<Rightarrow> TaskRun readResult"
  podFile :: "string \<Rightarrow> Pod readResult"

definition ParseAllThreeLists1 ::
  "files1 \<Rightarrow> string list \<Rightarrow> globals \<Rightarrow> error + (string list \<times> line list \<times> globals)" where
  "ParseAllThreeLists1 fs args g =
     (if length args < 3 then Inr ([notEnoughArguments], [], g)
      else
        (let prFileName = args ! 0; trFileName = args ! 1; podFileName = args ! 2
         in case parsePipelineRunList1 prFileName (prFile fs prFileName) [] (prMaps g) of
              Inl e \<Rightarrow> Inl e
            | Inr (ReadFailure s, m1) \<Rightarrow> Inr ([s], [], g\<lparr>prMaps := m1\<rparr>)
            | Inr (Rows retS1, m1) \<Rightarrow>
                (case parseTaskRunList1 trFileName (trFile fs trFileName) [] (trMaps g) of
                   Inl e \<Rightarrow> Inl e
                 | Inr (ReadFailure s, m2) \<Rightarrow> Inr ([s], [], g\<lparr>prMaps := m1, trMaps := m2\<rparr>)
                 | Inr (Rows retS2, m2) \<Rightarrow>
                     (case parsePodList1 podFileName (podFile fs podFileName) [] (podMaps g) of
                        Inl e \<Rightarrow> Inl e
                      | Inr (ReadFailure s, m3) \<Rightarrow>
                          Inr ([s], [], g\<lparr>prMaps := m1, trMaps := m2, podMaps := m3\<rparr>)
                      | Inr (Rows retS3, m3) \<Rightarrow>
                          Inr ([], aggregateLines retS1 retS2 retS3,
                               g\<lparr>prMaps := m1, trMaps := m2, podMaps := m3\<rparr>)))))"

subsection \<open>The revision with maps local to each command\<close>

text \<open>
  \<open>src/main.go\<close> has no package-level maps and no concurrency. Its pod-list command and
  its command for all three lists take a pod's duration from a loop in which every
  terminated container status overwrites the variable \<open>duration\<close>. In the command for all
  three lists that variable is the one that holds the task run's duration when the loop
  over the pods begins. A file that cannot be read or decoded leaves its list of items
  empty there. The definitions of this revision carry the suffix 0.
\<close>

fun durationLoop0 :: "ContainerStatus list \<Rightarrow> time \<Rightarrow> duration \<Rightarrow> duration" where
  "durationLoop0 [] start duration = duration"
| "durationLoop0 (status # rest) start duration =
     (case Terminated status of
        None \<Rightarrow> durationLoop0 rest start duration
      | Some terminated \<Rightarrow> durationLoop0 rest start (Sub (FinishedAt terminated) start))"

text \<open>
  \<open>ParsePodList\<close> of \<open>src/main.go\<close> after the file has been read and decoded: the loop
  over the pods with \<open>podToDuration\<close>, \<open>durations\<close> and \<open>durationsMap\<close>, then the printed
  pairs of key and seconds.
\<close>

fun podListLoop0 ::
  "Pod list \<Rightarrow> (string \<times> rat) list \<times> rat list \<times> rat set
     \<Rightarrow> (string \<times> rat) list \<times> rat list \<times> rat set" where
  "podListLoop0 [] (podToDuration, ds, dm) = (podToDuration, ds, dm)"
| "podListLoop0 (pod # rest) (podToDuration, ds, dm) =
     (case pod_StartTime pod of
        None \<Rightarrow> podListLoop0 rest (podToDuration, ds, dm)
      | Some start \<Rightarrow>
          if Phase pod \<noteq> PodSucceeded \<and> Phase pod \<noteq> PodFailed
          then podListLoop0 rest (podToDuration, ds, dm)
          else (let duration = durationLoop0 (ContainerStatuses pod) start 0
                in podListLoop0 rest
                     (AList.update (podKeyOf pod) (Seconds duration) podToDuration,
                      if Seconds duration \<in> dm then ds else ds @ [Seconds duration],
                      insert (Seconds duration) dm)))"

definition ParsePodList0 :: "Pod list \<Rightarrow> (string \<times> rat) list" where
  "ParsePodList0 items =
     (case podListLoop0 items ([], [], {}) of
        (podToDuration, ds, dm) \<Rightarrow>
          concat (map (\<lambda>duration. filter (\<lambda>(key, value). value = duration) podToDuration)
                   (sort ds)))"

text \<open>\<open>ParseAllThreeLists\<close> of \<open>src/main.go\<close>: the three nested loops, then the printed lines.\<close>

fun podLoop0 ::
  "Pod list \<Rightarrow> TaskRun \<Rightarrow> string \<Rightarrow> duration \<times> (string \<times> rat) list
     \<Rightarrow> duration \<times> (string \<times> rat) list" where
  "podLoop0 [] tr prKey (duration, prToPodDurations) = (duration, prToPodDurations)"
| "podLoop0 (pod # rest) tr prKey (duration, prToPodDurations) =
     (if Namespace (pod_Meta pod) \<noteq> Namespace (tr_Meta tr)
      then podLoop0 rest tr prKey (duration, prToPodDurations)
      else if \<not> HasPrefix (Name (pod_Meta pod)) (Name (tr_Meta tr))
      then podLoop0 rest tr prKey (duration, prToPodDurations)
      else case pod_StartTime pod of
        None \<Rightarrow> podLoop0 rest tr prKey (duration, prToPodDurations)
      | Some start \<Rightarrow>
          if Phase pod \<noteq> PodSucceeded \<and> Phase pod \<noteq> PodFailed
          then podLoop0 rest tr prKey (duration, prToPodDurations)
          else (let duration' = durationLoop0 (ContainerStatuses pod) start duration;
                    podDurations = (case map_of prToPodDurations prKey of
                                      None \<Rightarrow> Seconds duration'
                                    | Some sofar \<Rightarrow> sofar + Seconds duration')
                in podLoop0 rest tr prKey
                     (duration', AList.update prKey podDurations prToPodDurations)))"

fun trLoop0 ::
  "TaskRun list \<Rightarrow> Pod list \<Rightarrow> PipelineRun \<Rightarrow> (string \<times> rat) list \<times> (string \<times> rat) list
     \<Rightarrow> error + ((string \<times> rat) list \<times> (string \<times> rat) list)" where
  "trLoop0 [] pods pr (prToTaskDurations, prToPodDurations) =
     Inr (prToTaskDurations, prToPodDurations)"
| "trLoop0 (tr # rest) pods pr (prToTaskDurations, prToPodDurations) =
     (if Namespace (tr_Meta tr) \<noteq> Namespace (pr_Meta pr)
      then trLoop0 rest pods pr (prToTaskDurations, prToPodDurations)
      else if \<not> HasPrefix (Name (tr_Meta tr)) (Name (pr_Meta pr))
      then trLoop0 rest pods pr (prToTaskDurations, prToPodDurations)
      else if \<not> HasStarted (tr_Status tr)
      then trLoop0 rest pods pr (prToTaskDurations, prToPodDurations)
      else if \<not> IsDone (tr_Status tr)
      then trLoop0 rest pods pr (prToTaskDurations, prToPodDurations)
      else case (CompletionTime (tr_Status tr), StartTime (tr_Status tr)) of
        (Some completion, Some start) \<Rightarrow>
          (let duration = Sub completion start;
               taskDurations = (case map_of prToTaskDurations (prKeyOf pr) of
                                  None \<Rightarrow> Seconds duration
                                | Some sofar \<Rightarrow> sofar + Seconds duration);
               prToTaskDurations' = AList.update (prKeyOf pr) taskDurations prToTaskDurations
           in case podLoop0 pods tr (prKeyOf pr) (duration, prToPodDurations) of
                (duration', prToPodDurations') \<Rightarrow>
                  trLoop0 rest pods pr (prToTaskDurations', prToPodDurations'))
      | _ \<Rightarrow> Inl NilPointerDereference)"

record locals0 =
  prToDuration :: "(string \<times> rat) list"
  prToTaskDurations :: "(string \<times> rat) list"
  prToPodDurations :: "(string \<times> rat) list"
  prDurations :: "rat list"
  prDurationsMap :: "rat set"

fun prLoop0 ::
  "PipelineRun list \<Rightarrow> TaskRun list \<Rightarrow> Pod list \<Rightarrow> locals0 \<Rightarrow> error + locals0" where
  "prLoop0 [] trs pods l = Inr l"
| "prLoop0 (pr # rest) trs pods l =
     (if \<not> HasStarted (pr_Status pr) then prLoop0 rest trs pods l
      else if \<not> IsDone (pr_Status pr) then prLoop0 rest trs pods l
      else case (CompletionTime (pr_Status pr), StartTime (pr_Status pr)) of
        (Some completion, Some start) \<Rightarrow>
          (let duration = Sub completion start;
               l1 = l\<lparr>prToDuration := AList.update (prKeyOf pr) (Seconds duration) (prToDuration l)\<rparr>;
               l2 = (if Seconds duration \<in> prDurationsMap l1 then l1
                     else l1\<lparr>prDurations := prDurations l1 @ [Seconds duration],
                             prDurationsMap := insert (Seconds duration) (prDurationsMap l1)\<rparr>)
           in case trLoop0 trs pods pr (prToTaskDurations l2, prToPodDurations l2) of
                Inl e \<Rightarrow> Inl e
              | Inr (tt, pp) \<Rightarrow>
                  prLoop0 rest trs pods (l2\<lparr>prToTaskDurations := tt, prToPodDurations := pp\<rparr>))
      | _ \<Rightarrow> Inl NilPointerDereference)"

record line0 =
  run0 :: string
  took0 :: rat
  taskruns0 :: rat
  taskrunsDelta0 :: rat
  taskrunsPercent0 :: quotient
  pods0 :: rat
  podsDelta0 :: rat
  podsPercent0 :: quotient

definition lookupSeconds :: "(string \<times> rat) list \<Rightarrow> string \<Rightarrow> rat" where
  "lookupSeconds m k = (case map_of m k of None \<Rightarrow> 0 | Some v \<Rightarrow> v)"

definition ParseAllThreeLists0 ::
  "PipelineRun list \<Rightarrow> TaskRun list \<Rightarrow> Pod list \<Rightarrow> error + line0 list" where
  "ParseAllThreeLists0 prs trs pods =
     (case prLoop0 prs trs pods
             \<lparr>prToDuration = [], prToTaskDurations = [], prToPodDurations = [],
              prDurations = [], prDurationsMap = {}\<rparr> of
        Inl e \<Rightarrow> Inl e
      | Inr l \<Rightarrow>
          Inr (concat (map (\<lambda>duration.
                 map (\<lambda>(key, value).
                        (let trDurations = lookupSeconds (prToTaskDurations l) key;
                             podDurations = lookupSeconds (prToPodDurations l) key
                         in \<lparr>run0 = key, took0 = value, taskruns0 = trDurations,
                             taskrunsDelta0 = value - trDurations,
                             taskrunsPercent0 = fdiv trDurations value,
                             pods0 = podDurations, podsDelta0 = value - podDurations,
                             podsPercent0 = fdiv podDurations value\<rparr>))
                   (filter (\<lambda>(key, value). value = duration) (prToDuration l)))
               (sort (prDurations l)))))"

section \<open>Properties\<close>

subsection \<open>Ownership\<close>

lemma HasPrefix_iff_prefix: "HasPrefix s p \<longleftrightarrow> prefix p s"
proof
  assume "HasPrefix s p"
  then have "take (length p) s = p"
    by (simp add: HasPrefix_def)
  then have "s = p @ drop (length p) s"
    by (metis append_take_drop_id)
  then show "prefix p s"
    by (rule prefixI)
next
  assume "prefix p s"
  then obtain r where "s = p @ r"
    by (auto simp: prefix_def)
  then show "HasPrefix s p"
    by (simp add: HasPrefix_def)
qed

lemma colon_split_unique:
  assumes "a @ CHR '':'' # x = b @ CHR '':'' # y"
    and "CHR '':'' \<notin> set a" and "CHR '':'' \<notin> set b"
  shows "a = b \<and> x = y"
  using assms
proof (induction a arbitrary: b)
  case Nil
  then show ?case by (cases b) auto
next
  case (Cons c a)
  then show ?case by (cases b) auto
qed

lemma key_prefix_iff:
  assumes "CHR '':'' \<notin> set kidns" and "CHR '':'' \<notin> set prns"
  shows "HasPrefix (objKey kidns kidname) (objKey prns prname)
         \<longleftrightarrow> kidns = prns \<and> prefix prname kidname"
proof
  assume "HasPrefix (objKey kidns kidname) (objKey prns prname)"
  then obtain r where "kidns @ CHR '':'' # kidname = prns @ CHR '':'' # (prname @ r)"
    by (auto simp: HasPrefix_iff_prefix objKey_def prefix_def)
  from colon_split_unique [OF this assms]
  show "kidns = prns \<and> prefix prname kidname"
    by (auto simp: prefix_def)
next
  assume "kidns = prns \<and> prefix prname kidname"
  then show "HasPrefix (objKey kidns kidname) (objKey prns prname)"
    by (auto simp: HasPrefix_iff_prefix objKey_def)
qed

text \<open>
  C9. The ownership predicate holds exactly when the namespaces are equal and the parent's
  name is a literal prefix of the candidate's name; no delimiter is asked for, so for a
  parent \<open>run-1\<close> both \<open>run-1-task-a\<close> and \<open>run-10-task-a\<close> of the same namespace are
  children. The match on keys made by the aggregation loop is the same predicate as long
  as no namespace holds a colon.
\<close>

theorem prOwns_literal_prefix:
  "(prOwns kidns kidname prns prname \<longleftrightarrow> kidns = prns \<and> prefix prname kidname)
   \<and> prOwns ns ''run-1-task-a'' ns ''run-1''
   \<and> prOwns ns ''run-10-task-a'' ns ''run-1''
   \<and> (CHR '':'' \<notin> set kidns \<and> CHR '':'' \<notin> set prns \<longrightarrow>
        (HasPrefix (objKey kidns kidname) (objKey prns prname)
         \<longleftrightarrow> prOwns kidns kidname prns prname))"
proof -
  have a: "prOwns kidns kidname prns prname \<longleftrightarrow> kidns = prns \<and> prefix prname kidname"
    for kidns kidname prns prname
    by (simp add: prOwns_def HasPrefix_iff_prefix)
  have b: "prOwns ns ''run-1-task-a'' ns ''run-1''"
    by (simp add: prOwns_def HasPrefix_def)
  have c: "prOwns ns ''run-10-task-a'' ns ''run-1''"
    by (simp add: prOwns_def HasPrefix_def)
  show ?thesis
    using a b c key_prefix_iff by blast
qed

theorem prOwns_literal_prefix_witness:
  "prOwns ''ci'' ''run-10-task-a'' ''ci'' ''run-1''
   \<and> HasPrefix (objKey ''ci'' ''run-10-task-a'') (objKey ''ci'' ''run-1'')
   \<and> \<not> prOwns ''ci'' ''run-2-task-a'' ''ci'' ''run-1''
   \<and> \<not> prOwns ''dev'' ''run-1-task-a'' ''ci'' ''run-1''"
  using prOwns_literal_prefix [of "''ci''" "''run-10-task-a''" "''ci''" "''run-1''" "''ci''"]
    prOwns_literal_prefix [of "''ci''" "''run-2-task-a''" "''ci''" "''run-1''" "''ci''"]
    prOwns_literal_prefix [of "''dev''" "''run-1-task-a''" "''ci''" "''run-1''" "''ci''"]
  by simp

subsection \<open>Concurrency of disjoint windows\<close>

lemma innerLoop_count:
  "innerLoop key st en starts ends c =
     c + int (length (filter (\<lambda>(k, start). k \<noteq> key \<and>
            (start = st \<and> lookupTime ends k = en \<or> start < en \<and> st < lookupTime ends k))
          starts))"
proof (induction starts arbitrary: c)
  case Nil
  show ?case by simp
next
  case (Cons p starts)
  obtain k v where p: "p = (k, v)" by (cases p)
  show ?case
    unfolding p by (simp add: Cons.IH Let_def Before_def After_def)
qed

lemma lookupTime_delete: "k \<noteq> b \<Longrightarrow> lookupTime (AList.delete b m) k = lookupTime m k"
  by (simp add: lookupTime_def)

lemma lookupTime_distinct:
  "distinct (map fst m) \<Longrightarrow> (k, v) \<in> set m \<Longrightarrow> lookupTime m k = v"
  by (simp add: lookupTime_def)

lemma filter_delete_irrelevant:
  "(\<And>v. (b, v) \<in> set xs \<Longrightarrow> \<not> Q (b, v)) \<Longrightarrow> filter Q (AList.delete b xs) = filter Q xs"
  by (induction xs) auto

lemma delete_key_absent: "(k, v) \<in> set (AList.delete b xs) \<Longrightarrow> k \<noteq> b"
  by (induction xs) (auto split: if_splits)

lemma innerConcurrency_delete_other:
  assumes "distinct (map fst starts)" and "a \<noteq> b"
    and "lookupTime ends a \<le> lookupTime starts b \<or> lookupTime ends b \<le> lookupTime starts a"
    and "\<not> (lookupTime starts a = lookupTime starts b \<and> lookupTime ends a = lookupTime ends b)"
  shows "innerConcurrency a starts ends
         = innerConcurrency a (AList.delete b starts) (AList.delete b ends)"
proof -
  let ?P = "\<lambda>ends (k, start). k \<noteq> a \<and>
            (start = lookupTime starts a \<and> lookupTime ends k = lookupTime ends a
             \<or> start < lookupTime ends a \<and> lookupTime starts a < lookupTime ends k)"
  have "filter (?P (AList.delete b ends)) (AList.delete b starts)
        = filter (?P ends) (AList.delete b starts)"
  proof (rule filter_cong [OF refl])
    fix x assume x: "x \<in> set (AList.delete b starts)"
    obtain k v where kv: "x = (k, v)" by (cases x)
    with x have "k \<noteq> b" by (auto dest: delete_key_absent)
    with assms(2) kv show "?P (AList.delete b ends) x = ?P ends x"
      by (simp add: lookupTime_delete)
  qed
  also have "\<dots> = filter (?P ends) starts"
  proof (rule filter_delete_irrelevant)
    fix v assume "(b, v) \<in> set starts"
    with assms(1) have "v = lookupTime starts b"
      by (simp add: lookupTime_distinct)
    with assms show "\<not> ?P ends (b, v)" by auto
  qed
  finally show ?thesis
    using assms(2) by (simp add: innerConcurrency_def innerLoop_count lookupTime_delete)
qed

lemma filter_delete_counted:
  "distinct (map fst xs) \<Longrightarrow> (b, v) \<in> set xs \<Longrightarrow> Q (b, v) \<Longrightarrow>
   length (filter Q xs) = Suc (length (filter Q (AList.delete b xs)))"
proof (induction xs)
  case Nil
  then show ?case by simp
next
  case (Cons p xs)
  obtain k w where p: "p = (k, w)" by (cases p)
  show ?case
  proof (cases "k = b")
    case True
    with Cons.prems p have w: "w = v" and absent: "b \<notin> fst ` set xs"
      by (auto simp: image_iff)
    from absent have "AList.delete b xs = xs"
      by simp
    with True w p Cons.prems(3) show ?thesis
      by simp
  next
    case False
    with Cons.prems p have "distinct (map fst xs)" "(b, v) \<in> set xs"
      by auto
    from Cons.IH [OF this Cons.prems(3)] False p show ?thesis
      by simp
  qed
qed

lemma innerConcurrency_same_window:
  assumes "distinct (map fst starts)" and "a \<noteq> b" and "b \<in> fst ` set starts"
    and "lookupTime starts a = lookupTime starts b" and "lookupTime ends a = lookupTime ends b"
  shows "innerConcurrency a starts ends
         = innerConcurrency a (AList.delete b starts) (AList.delete b ends) + 1"
proof -
  let ?P = "\<lambda>ends (k, start). k \<noteq> a \<and>
            (start = lookupTime starts a \<and> lookupTime ends k = lookupTime ends a
             \<or> start < lookupTime ends a \<and> lookupTime starts a < lookupTime ends k)"
  from assms(3) obtain v where v: "(b, v) \<in> set starts"
    by auto
  with assms(1) have "v = lookupTime starts b"
    by (simp add: lookupTime_distinct)
  with assms(2,4,5) have "?P ends (b, v)"
    by simp
  from filter_delete_counted [OF assms(1) v, of "?P ends", OF this]
  have "length (filter (?P ends) starts)
        = Suc (length (filter (?P ends) (AList.delete b starts)))" .
  moreover have "filter (?P (AList.delete b ends)) (AList.delete b starts)
        = filter (?P ends) (AList.delete b starts)"
  proof (rule filter_cong [OF refl])
    fix x assume x: "x \<in> set (AList.delete b starts)"
    obtain k w where kw: "x = (k, w)" by (cases x)
    with x have "k \<noteq> b" by (auto dest: delete_key_absent)
    with assms(2) kw show "?P (AList.delete b ends) x = ?P ends x"
      by (simp add: lookupTime_delete)
  qed
  ultimately show ?thesis
    using assms(2) by (simp add: innerConcurrency_def innerLoop_count lookupTime_delete)
qed

text \<open>
  C6, as stated, fails for two entities whose windows are the same empty window: \<open>a\<close> and
  \<open>b\<close> both start and end at instant 5, so \<open>a\<close> ends no later than \<open>b\<close> starts, yet the
  test for identical windows counts \<open>b\<close> for \<open>a\<close>: with \<open>b\<close> the concurrency of \<open>a\<close> is 2,
  without \<open>b\<close> it is 1.
\<close>

theorem identical_empty_windows_counterexample:
  "lookupTime [(''a'', 5), (''b'', 5)] ''a'' \<le> lookupTime [(''a'', 5), (''b'', 5)] ''b''
   \<and> innerConcurrency ''a'' [(''a'', 5), (''b'', 5)] [(''a'', 5), (''b'', 5)] = 2
   \<and> innerConcurrency ''a'' (AList.delete ''b'' [(''a'', 5), (''b'', 5)])
        (AList.delete ''b'' [(''a'', 5), (''b'', 5)]) = 1"
  by (simp add: innerConcurrency_def lookupTime_def Before_def After_def zeroTime_def)

text \<open>
  C6, amended. For two different keys \<open>a\<close> and \<open>b\<close> of the same kind whose windows are
  disjoint (one ends no later than the other starts, the boundary included) and are not
  the very same window, neither contributes to the other's concurrency: each one's count
  is what it is with the other removed from the maps. Two recorded entities with the very
  same window always count each other, an empty window (start = end) included: each
  one's count is one more than with the other removed.
\<close>

theorem disjoint_windows_do_not_count:
  assumes "distinct (map fst starts)" and "a \<noteq> b"
  shows "((lookupTime ends a \<le> lookupTime starts b \<or> lookupTime ends b \<le> lookupTime starts a)
          \<and> \<not> (lookupTime starts a = lookupTime starts b \<and> lookupTime ends a = lookupTime ends b)
          \<longrightarrow> innerConcurrency a starts ends
                = innerConcurrency a (AList.delete b starts) (AList.delete b ends)
              \<and> innerConcurrency b starts ends
                = innerConcurrency b (AList.delete a starts) (AList.delete a ends))
     \<and> (lookupTime starts a = lookupTime starts b \<and> lookupTime ends a = lookupTime ends b
          \<and> a \<in> fst ` set starts \<and> b \<in> fst ` set starts
          \<longrightarrow> innerConcurrency a starts ends
                = innerConcurrency a (AList.delete b starts) (AList.delete b ends) + 1
              \<and> innerConcurrency b starts ends
                = innerConcurrency b (AList.delete a starts) (AList.delete a ends) + 1)"
proof (intro conjI impI)
  assume h: "(lookupTime ends a \<le> lookupTime starts b \<or> lookupTime ends b \<le> lookupTime starts a)
          \<and> \<not> (lookupTime starts a = lookupTime starts b \<and> lookupTime ends a = lookupTime ends b)"
  then have d: "lookupTime ends a \<le> lookupTime starts b \<or> lookupTime ends b \<le> lookupTime starts a"
    and n: "\<not> (lookupTime starts a = lookupTime starts b \<and> lookupTime ends a = lookupTime ends b)"
    by simp_all
  from assms d n
  show "innerConcurrency a starts ends
        = innerConcurrency a (AList.delete b starts) (AList.delete b ends)"
    by (rule innerConcurrency_delete_other)
  from d have d': "lookupTime ends b \<le> lookupTime starts a \<or> lookupTime ends a \<le> lookupTime starts b"
    by blast
  from n have n': "\<not> (lookupTime starts b = lookupTime starts a \<and> lookupTime ends b = lookupTime ends a)"
    by auto
  from assms(2) have "b \<noteq> a" by simp
  with assms(1)
  show "innerConcurrency b starts ends
        = innerConcurrency b (AList.delete a starts) (AList.delete a ends)"
    using d' n' by (rule innerConcurrency_delete_other)
next
  assume h: "lookupTime starts a = lookupTime starts b \<and> lookupTime ends a = lookupTime ends b
          \<and> a \<in> fst ` set starts \<and> b \<in> fst ` set starts"
  then show "innerConcurrency a starts ends
        = innerConcurrency a (AList.delete b starts) (AList.delete b ends) + 1"
    using assms by (intro innerConcurrency_same_window) simp_all
  from assms(2) have "b \<noteq> a" by simp
  with h show "innerConcurrency b starts ends
        = innerConcurrency b (AList.delete a starts) (AList.delete a ends) + 1"
    using assms(1) by (intro innerConcurrency_same_window) simp_all
qed

theorem disjoint_windows_do_not_count_witness:
  "innerConcurrency ''a'' [(''a'', 0), (''b'', 10), (''c'', 5)] [(''a'', 10), (''b'', 15), (''c'', 12)]
     = innerConcurrency ''a'' [(''a'', 0), (''c'', 5)] [(''a'', 10), (''c'', 12)]
   \<and> innerConcurrency ''b'' [(''a'', 0), (''b'', 10), (''c'', 5)] [(''a'', 10), (''b'', 15), (''c'', 12)]
     = innerConcurrency ''b'' [(''b'', 10), (''c'', 5)] [(''b'', 15), (''c'', 12)]
   \<and> innerConcurrency ''a'' [(''a'', 5), (''b'', 5)] [(''a'', 5), (''b'', 5)]
     = innerConcurrency ''a'' [(''a'', 5)] [(''a'', 5)] + 1
   \<and> innerConcurrency ''b'' [(''a'', 5), (''b'', 5)] [(''a'', 5), (''b'', 5)]
     = innerConcurrency ''b'' [(''b'', 5)] [(''b'', 5)] + 1"
  using disjoint_windows_do_not_count [of "[(''a'', 0), (''b'', 10), (''c'', 5)]" "''a''" "''b''"
      "[(''a'', 10), (''b'', 15), (''c'', 12)]"]
    disjoint_windows_do_not_count [of "[(''a'', 5), (''b'', 5)]" "''a''" "''b''"
      "[(''a'', 5), (''b'', 5)]"]
  by (simp add: lookupTime_def)

subsection \<open>What recording a window stores\<close>

lemma toDuration_recordWindow [simp]:
  "toDuration (recordWindow k s e m) = AList.update k (Seconds (Sub e s)) (toDuration m)"
  by (simp add: recordWindow_def Let_def)

lemma startTimes_recordWindow [simp]:
  "startTimes (recordWindow k s e m) = AList.update k s (startTimes m)"
  by (simp add: recordWindow_def Let_def)

lemma endTimes_recordWindow [simp]:
  "endTimes (recordWindow k s e m) = AList.update k e (endTimes m)"
  by (simp add: recordWindow_def Let_def)

lemma durations_recordWindow:
  "durations (recordWindow k s e m) =
     (if Seconds (Sub e s) \<in> durationsMap m then durations m
      else durations m @ [Seconds (Sub e s)])"
  by (simp add: recordWindow_def Let_def)

lemma durationsMap_recordWindow [simp]:
  "durationsMap (recordWindow k s e m) = insert (Seconds (Sub e s)) (durationsMap m)"
  by (auto simp: recordWindow_def Let_def)

lemma lookupTime_update [simp]: "lookupTime (AList.update k v m) k = v"
  by (simp add: lookupTime_def update_conv')

subsection \<open>The end of a pod\<close>

lemma Max_insert_smaller:
  fixes t f :: int
  assumes "finite S" and "t \<le> f"
  shows "Max (insert t (insert f S)) = Max (insert f S)"
proof -
  have fin: "finite (insert f S)" using assms(1) by simp
  have "f \<le> Max (insert f S)"
    by (rule Max_ge [OF fin]) simp
  with assms(2) have le: "t \<le> Max (insert f S)" by linarith
  have "Max (insert t (insert f S)) = max t (Max (insert f S))"
    by (rule Max_insert [OF fin]) simp
  with le show ?thesis by (simp only: max.absorb2)
qed

lemma terminatedTime_Max:
  "terminatedTime statuses t =
     Max (insert t {FinishedAt x | status x. status \<in> set statuses \<and> Terminated status = Some x})"
proof (induction statuses arbitrary: t)
  case Nil
  show ?case by simp
next
  case (Cons status rest)
  let ?F = "\<lambda>l. {FinishedAt x | status x. status \<in> set l \<and> Terminated status = Some x}"
  have fin: "finite (?F rest)"
  proof -
    have "?F rest \<subseteq> (\<lambda>s. FinishedAt (the (Terminated s))) ` set rest" by force
    then show ?thesis by (rule finite_subset) simp
  qed
  show ?case
  proof (cases "Terminated status")
    case None
    then have "?F (status # rest) = ?F rest" by auto
    with None Cons.IH [of t] show ?thesis by simp
  next
    case (Some x)
    then have eq: "?F (status # rest) = insert (FinishedAt x) (?F rest)" by auto
    show ?thesis
    proof (cases "After (FinishedAt x) t")
      case True
      then have "t < FinishedAt x" by (simp add: After_def)
      then have "Max (insert t (insert (FinishedAt x) (?F rest))) = Max (insert (FinishedAt x) (?F rest))"
        using fin by (intro Max_insert_smaller) simp_all
      with Some True Cons.IH [of "FinishedAt x"] eq show ?thesis by simp
    next
      case False
      then have "FinishedAt x \<le> t" by (simp add: After_def)
      then have "Max (insert (FinishedAt x) (insert t (?F rest))) = Max (insert t (?F rest))"
        using fin by (rule Max_insert_smaller [rotated])
      then have "Max (insert t (insert (FinishedAt x) (?F rest))) = Max (insert t (?F rest))"
        by (simp add: insert_commute)
      with Some False Cons.IH [of t] eq show ?thesis by simp
    qed
  qed
qed

lemma finished_set_Nil:
  "{FinishedAt x | status x. status \<in> set [] \<and> Terminated status = Some x} = {}"
  by simp

lemma finished_set_Cons:
  "{FinishedAt x | status x. status \<in> set (s # rest) \<and> Terminated status = Some x}
   = (case Terminated s of None \<Rightarrow> {} | Some x \<Rightarrow> {FinishedAt x})
     \<union> {FinishedAt x | status x. status \<in> set rest \<and> Terminated status = Some x}"
  by (cases "Terminated s") auto

lemma eligible_pod_started: "\<not> ignorePod pod prFilter \<Longrightarrow> \<exists>start. pod_StartTime pod = Some start"
  by (auto simp: ignorePod_def split: if_splits)

text \<open>
  In the revisions that have \<open>processPod\<close>: for an eligible pod with a terminated
  container status whose \<open>finishedAt\<close> is not before the zero time, \<open>processPod\<close>
  returns, and the end it stores for the pod is
  the latest \<open>finishedAt\<close> among all terminated container statuses; the stored duration
  is that end minus the pod's start. The end depends on the set of statuses only, not on
  the order in which they are declared.
\<close>

theorem processPod_end_is_latest_finish:
  assumes "\<not> ignorePod pod prFilter"
    and "\<exists>status\<in>set (ContainerStatuses pod).
           \<exists>x. Terminated status = Some x \<and> zeroTime \<le> FinishedAt x"
  shows "\<exists>start m'. pod_StartTime pod = Some start \<and> processPod pod m = Inr m'
     \<and> lookupTime (endTimes m') (podKeyOf pod)
         = Max {FinishedAt x | status x.
                  status \<in> set (ContainerStatuses pod) \<and> Terminated status = Some x}
     \<and> lookupTime (startTimes m') (podKeyOf pod) = start
     \<and> map_of (toDuration m') (podKeyOf pod)
         = Some (Seconds (Sub (Max {FinishedAt x | status x.
                  status \<in> set (ContainerStatuses pod) \<and> Terminated status = Some x}) start))
     \<and> (set statuses' = set (ContainerStatuses pod) \<longrightarrow>
          terminatedTime statuses' zeroTime = terminatedTime (ContainerStatuses pod) zeroTime)"
proof -
  let ?F = "{FinishedAt x | status x.
              status \<in> set (ContainerStatuses pod) \<and> Terminated status = Some x}"
  from assms(1) obtain start where start: "pod_StartTime pod = Some start"
    by (auto dest: eligible_pod_started)
  from assms(2) obtain f where f: "f \<in> ?F" "zeroTime \<le> f"
    by blast
  have "?F \<subseteq> (\<lambda>s. FinishedAt (the (Terminated s))) ` set (ContainerStatuses pod)"
    by force
  then have fin: "finite ?F"
    by (rule finite_subset) simp
  from f(1) have "insert f ?F = ?F" by blast
  with Max_insert_smaller [OF fin f(2)]
  have "Max (insert zeroTime ?F) = Max ?F" by simp
  then have latest: "terminatedTime (ContainerStatuses pod) zeroTime = Max ?F"
    by (simp only: terminatedTime_Max)
  have perm: "set statuses' = set (ContainerStatuses pod) \<longrightarrow>
          terminatedTime statuses' zeroTime = terminatedTime (ContainerStatuses pod) zeroTime"
    by (simp add: terminatedTime_Max)
  from start latest perm show ?thesis
    by (simp add: processPod_def update_conv')
qed

theorem processPod_end_is_latest_finish_witness:
  "\<exists>m'. processPod
      \<lparr>pod_Kind = ''Pod'',
       pod_Meta = \<lparr>Namespace = ''ci'', Name = ''run-1-build-pod'',
                   Labels = [(''tekton.dev/pipelineRun'', ''run-1'')]\<rparr>,
       Containers = [\<lparr>c_Name = ''step-a''\<rparr>, \<lparr>c_Name = ''step-b''\<rparr>],
       pod_StartTime = Some 1000000000, Phase = PodSucceeded,
       ContainerStatuses =
         [\<lparr>cs_Name = ''step-b'',
           Terminated = Some \<lparr>StartedAt = 2000000000, FinishedAt = 21000000000\<rparr>\<rparr>,
          \<lparr>cs_Name = ''step-a'',
           Terminated = Some \<lparr>StartedAt = 2000000000, FinishedAt = 13000000000\<rparr>\<rparr>]\<rparr>
      no_maps = Inr m'
    \<and> lookupTime (endTimes m') ''ci:run-1-build-pod'' = 21000000000
    \<and> map_of (toDuration m') ''ci:run-1-build-pod'' = Some 20"
proof -
  let ?pod = "\<lparr>pod_Kind = ''Pod'',
       pod_Meta = \<lparr>Namespace = ''ci'', Name = ''run-1-build-pod'',
                   Labels = [(''tekton.dev/pipelineRun'', ''run-1'')]\<rparr>,
       Containers = [\<lparr>c_Name = ''step-a''\<rparr>, \<lparr>c_Name = ''step-b''\<rparr>],
       pod_StartTime = Some 1000000000, Phase = PodSucceeded,
       ContainerStatuses =
         [\<lparr>cs_Name = ''step-b'',
           Terminated = Some \<lparr>StartedAt = 2000000000, FinishedAt = 21000000000\<rparr>\<rparr>,
          \<lparr>cs_Name = ''step-a'',
           Terminated = Some \<lparr>StartedAt = 2000000000, FinishedAt = 13000000000\<rparr>\<rparr>]\<rparr>"
  have e: "\<not> ignorePod ?pod []"
    by (simp add: ignorePod_def)
  have t: "\<exists>status\<in>set (ContainerStatuses ?pod).
           \<exists>x. Terminated status = Some x \<and> zeroTime \<le> FinishedAt x"
    by (simp add: zeroTime_def)
  have s: "{FinishedAt x | status x.
             status \<in> set (ContainerStatuses ?pod) \<and> Terminated status = Some x}
           = {21000000000, 13000000000}"
    by (simp only: Pod.select_convs finished_set_Cons finished_set_Nil) auto
  have k: "podKeyOf ?pod = ''ci:run-1-build-pod''"
    by (simp add: podKeyOf_def objKey_def)
  have d: "Seconds (Sub 21000000000 1000000000) = 20"
    by (simp add: Seconds_def Sub_def minDuration_def maxDuration_def)
  from processPod_end_is_latest_finish [OF e t, of no_maps]
  show ?thesis
    unfolding s k by (auto simp: d)
qed

subsection \<open>Container windows\<close>

lemma nameToIndex_other:
  "k \<notin> set names \<Longrightarrow> map_of (nameToIndex names i m) k = map_of m k"
  by (induction names arbitrary: i m) (auto simp: update_conv')

lemma nameToIndex_nth:
  "distinct names \<Longrightarrow> j < length names \<Longrightarrow>
   map_of (nameToIndex names i m) (names ! j) = Some (i + j)"
proof (induction names arbitrary: i m j)
  case Nil
  then show ?case by simp
next
  case (Cons n rest)
  show ?case
  proof (cases j)
    case 0
    with Cons.prems show ?thesis
      by (simp add: nameToIndex_other update_conv')
  next
    case (Suc j')
    with Cons.prems Cons.IH [of j' "Suc i" "AList.update n i m"] show ?thesis
      by simp
  qed
qed

lemma lookupIndex_nth:
  "distinct names \<Longrightarrow> j < length names \<Longrightarrow>
   lookupIndex (nameToIndex names 0 []) (names ! j) = j"
  by (simp add: lookupIndex_def nameToIndex_nth)

lemma containerKey_inject [simp]: "containerKey pod a = containerKey pod b \<longleftrightarrow> a = b"
  by (simp add: containerKey_def)

lemma lookupTime_update_other [simp]:
  "k \<noteq> k' \<Longrightarrow> lookupTime (AList.update k' v m) k = lookupTime m k"
  by (simp add: lookupTime_def update_conv')

lemma containerLoop_other:
  "name \<notin> cs_Name ` set l \<Longrightarrow>
   lookupTime (startTimes (containerLoop pod l m)) (containerKey pod name)
     = lookupTime (startTimes m) (containerKey pod name)
   \<and> lookupTime (endTimes (containerLoop pod l m)) (containerKey pod name)
     = lookupTime (endTimes m) (containerKey pod name)
   \<and> map_of (toDuration (containerLoop pod l m)) (containerKey pod name)
     = map_of (toDuration m) (containerKey pod name)"
proof (induction l arbitrary: m)
  case Nil
  show ?case by simp
next
  case (Cons c rest)
  then have ne: "name \<noteq> cs_Name c" and rest: "name \<notin> cs_Name ` set rest"
    by auto
  show ?case
  proof (cases "Terminated c")
    case None
    with Cons.IH [OF rest] show ?thesis by simp
  next
    case (Some x)
    with Cons.IH [OF rest] ne show ?thesis
      by (simp add: update_conv')
  qed
qed

lemma containerLoop_stores:
  "distinct (map cs_Name l) \<Longrightarrow> cstatus \<in> set l \<Longrightarrow> Terminated cstatus = Some t \<Longrightarrow>
   lookupTime (startTimes (containerLoop pod l m)) (containerKey pod (cs_Name cstatus))
     = windowStart pod cstatus t
   \<and> lookupTime (endTimes (containerLoop pod l m)) (containerKey pod (cs_Name cstatus))
     = FinishedAt t
   \<and> map_of (toDuration (containerLoop pod l m)) (containerKey pod (cs_Name cstatus))
     = Some (Seconds (Sub (FinishedAt t) (windowStart pod cstatus t)))"
proof (induction l arbitrary: m)
  case Nil
  then show ?case by simp
next
  case (Cons c rest)
  show ?case
  proof (cases "cstatus = c")
    case True
    from Cons.prems(1) have "cs_Name c \<notin> cs_Name ` set rest" by simp
    from containerLoop_other [OF this] True Cons.prems(3) show ?thesis
      by (simp add: update_conv')
  next
    case False
    with Cons.prems have "distinct (map cs_Name rest)" "cstatus \<in> set rest"
      by simp_all
    from Cons.IH [OF this Cons.prems(3)] show ?thesis
      by (cases "Terminated c") simp_all
  qed
qed

lemma windowStart_first:
  assumes "distinct (map c_Name (Containers pod))"
    and "0 < length (Containers pod)" and "c_Name (Containers pod ! 0) = cs_Name cstatus"
  shows "windowStart pod cstatus t = StartedAt t"
proof -
  from lookupIndex_nth [OF assms(1), of 0] assms(2,3)
  have "lookupIndex (nameToIndex (map c_Name (Containers pod)) 0 []) (cs_Name cstatus) = 0"
    by simp
  then show ?thesis
    by (simp add: windowStart_def)
qed

lemma windowStart_later:
  assumes "distinct (map c_Name (Containers pod))"
    and "distinct (map cs_Name (ContainerStatuses pod))"
    and "i < length (Containers pod)" and "c_Name (Containers pod ! i) = cs_Name cstatus"
    and "0 < i"
    and "prior \<in> set (ContainerStatuses pod)"
    and "cs_Name prior = c_Name (Containers pod ! (i - 1))"
  shows "windowStart pod cstatus t
         = (case Terminated prior of Some tp \<Rightarrow> FinishedAt tp | None \<Rightarrow> StartedAt t)"
proof -
  from lookupIndex_nth [OF assms(1), of i] assms(3,4)
  have i: "lookupIndex (nameToIndex (map c_Name (Containers pod)) 0 []) (cs_Name cstatus) = i"
    by simp
  from assms(6) obtain j where j: "j < length (ContainerStatuses pod)"
    "ContainerStatuses pod ! j = prior"
    by (auto simp: in_set_conv_nth)
  from lookupIndex_nth [OF assms(2), of j] j assms(7)
  have "lookupIndex (nameToIndex (map cs_Name (ContainerStatuses pod)) 0 [])
          (c_Name (Containers pod ! (i - 1))) = j"
    by simp
  with i j(2) assms(5) show ?thesis
    by (simp add: windowStart_def split: option.split)
qed

text \<open>
  C4, as stated, fails when the preceding container has no terminated status: the pod
  declares \<open>init\<close> before \<open>app\<close>, \<open>init\<close> has not terminated, and the window of \<open>app\<close>
  (second in spec order) starts at its own \<open>startedAt\<close>, 3 seconds.
\<close>

theorem prior_not_terminated_counterexample:
  "c_Name (Containers
      \<lparr>pod_Kind = ''Pod'',
       pod_Meta = \<lparr>Namespace = ''ci'', Name = ''pod'',
                   Labels = [(''tekton.dev/pipelineRun'', ''run-1'')]\<rparr>,
       Containers = [\<lparr>c_Name = ''init''\<rparr>, \<lparr>c_Name = ''app''\<rparr>],
       pod_StartTime = Some 1000000000, Phase = PodFailed,
       ContainerStatuses =
         [\<lparr>cs_Name = ''init'', Terminated = None\<rparr>,
          \<lparr>cs_Name = ''app'',
           Terminated = Some \<lparr>StartedAt = 3000000000, FinishedAt = 12000000000\<rparr>\<rparr>]\<rparr> ! 1)
     = ''app''
   \<and> lookupTime (startTimes (processContainers
      \<lparr>pod_Kind = ''Pod'',
       pod_Meta = \<lparr>Namespace = ''ci'', Name = ''pod'',
                   Labels = [(''tekton.dev/pipelineRun'', ''run-1'')]\<rparr>,
       Containers = [\<lparr>c_Name = ''init''\<rparr>, \<lparr>c_Name = ''app''\<rparr>],
       pod_StartTime = Some 1000000000, Phase = PodFailed,
       ContainerStatuses =
         [\<lparr>cs_Name = ''init'', Terminated = None\<rparr>,
          \<lparr>cs_Name = ''app'',
           Terminated = Some \<lparr>StartedAt = 3000000000, FinishedAt = 12000000000\<rparr>\<rparr>]\<rparr>
      no_maps)) ''ci:pod-app'' = 3000000000"
  by (simp add: processContainers_def windowStart_def lookupIndex_def containerKey_def
      no_maps_def lookupTime_def)

text \<open>
  C4, amended. In a pod whose spec names its containers once each and whose statuses name
  theirs once each, a container with a terminated status that stands at position \<open>i\<close> of
  the spec gets the window stored by \<open>processContainers\<close>: the end is its own
  \<open>finishedAt\<close>; the start is its own \<open>startedAt\<close> when it is first in spec order, the
  \<open>finishedAt\<close> of the container just before it in spec order when that one has a
  terminated status, and its own \<open>startedAt\<close> again when that one has not terminated.
\<close>

theorem container_window_start:
  assumes "distinct (map c_Name (Containers pod))"
    and "distinct (map cs_Name (ContainerStatuses pod))"
    and "cstatus \<in> set (ContainerStatuses pod)" and "Terminated cstatus = Some t"
    and "i < length (Containers pod)" and "c_Name (Containers pod ! i) = cs_Name cstatus"
  shows "lookupTime (startTimes (processContainers pod m)) (containerKey pod (cs_Name cstatus))
           = windowStart pod cstatus t
     \<and> lookupTime (endTimes (processContainers pod m)) (containerKey pod (cs_Name cstatus))
           = FinishedAt t
     \<and> map_of (toDuration (processContainers pod m)) (containerKey pod (cs_Name cstatus))
           = Some (Seconds (Sub (FinishedAt t) (windowStart pod cstatus t)))
     \<and> (i = 0 \<longrightarrow> windowStart pod cstatus t = StartedAt t)
     \<and> (0 < i \<and> prior \<in> set (ContainerStatuses pod)
           \<and> cs_Name prior = c_Name (Containers pod ! (i - 1)) \<longrightarrow>
         windowStart pod cstatus t
           = (case Terminated prior of Some tp \<Rightarrow> FinishedAt tp | None \<Rightarrow> StartedAt t))"
proof -
  note stored = containerLoop_stores [OF assms(2,3,4), of pod m]
  have first: "i = 0 \<longrightarrow> windowStart pod cstatus t = StartedAt t"
    using windowStart_first [OF assms(1)] assms(5,6) by auto
  have later: "0 < i \<and> prior \<in> set (ContainerStatuses pod)
           \<and> cs_Name prior = c_Name (Containers pod ! (i - 1)) \<longrightarrow>
         windowStart pod cstatus t
           = (case Terminated prior of Some tp \<Rightarrow> FinishedAt tp | None \<Rightarrow> StartedAt t)"
    using windowStart_later [OF assms(1,2,5,6)] by blast
  from stored first later show ?thesis
    by (simp add: processContainers_def)
qed

theorem container_window_start_witness:
  "lookupTime (startTimes (processContainers
      \<lparr>pod_Kind = ''Pod'',
       pod_Meta = \<lparr>Namespace = ''ci'', Name = ''pod'',
                   Labels = [(''tekton.dev/pipelineRun'', ''run-1'')]\<rparr>,
       Containers = [\<lparr>c_Name = ''init''\<rparr>, \<lparr>c_Name = ''app''\<rparr>],
       pod_StartTime = Some 1000000000, Phase = PodSucceeded,
       ContainerStatuses =
         [\<lparr>cs_Name = ''app'',
           Terminated = Some \<lparr>StartedAt = 2000000000, FinishedAt = 12000000000\<rparr>\<rparr>,
          \<lparr>cs_Name = ''init'',
           Terminated = Some \<lparr>StartedAt = 2000000000, FinishedAt = 5000000000\<rparr>\<rparr>]\<rparr>
      no_maps)) ''ci:pod-app'' = 5000000000
   \<and> map_of (toDuration (processContainers
      \<lparr>pod_Kind = ''Pod'',
       pod_Meta = \<lparr>Namespace = ''ci'', Name = ''pod'',
                   Labels = [(''tekton.dev/pipelineRun'', ''run-1'')]\<rparr>,
       Containers = [\<lparr>c_Name = ''init''\<rparr>, \<lparr>c_Name = ''app''\<rparr>],
       pod_StartTime = Some 1000000000, Phase = PodSucceeded,
       ContainerStatuses =
         [\<lparr>cs_Name = ''app'',
           Terminated = Some \<lparr>StartedAt = 2000000000, FinishedAt = 12000000000\<rparr>\<rparr>,
          \<lparr>cs_Name = ''init'',
           Terminated = Some \<lparr>StartedAt = 2000000000, FinishedAt = 5000000000\<rparr>\<rparr>]\<rparr>
      no_maps)) ''ci:pod-app'' = Some 7"
proof -
  let ?app = "\<lparr>cs_Name = ''app'',
           Terminated = Some \<lparr>StartedAt = 2000000000, FinishedAt = 12000000000\<rparr>\<rparr>"
  let ?init = "\<lparr>cs_Name = ''init'',
           Terminated = Some \<lparr>StartedAt = 2000000000, FinishedAt = 5000000000\<rparr>\<rparr>"
  let ?pod = "\<lparr>pod_Kind = ''Pod'',
       pod_Meta = \<lparr>Namespace = ''ci'', Name = ''pod'',
                   Labels = [(''tekton.dev/pipelineRun'', ''run-1'')]\<rparr>,
       Containers = [\<lparr>c_Name = ''init''\<rparr>, \<lparr>c_Name = ''app''\<rparr>],
       pod_StartTime = Some 1000000000, Phase = PodSucceeded,
       ContainerStatuses = [?app, ?init]\<rparr>"
  have k: "containerKey ?pod (cs_Name ?app) = ''ci:pod-app''"
    by (simp add: containerKey_def)
  have d: "Seconds (Sub 12000000000 5000000000) = 7"
    by (simp add: Seconds_def Sub_def minDuration_def maxDuration_def)
  have "distinct (map c_Name (Containers ?pod))"
    and "distinct (map cs_Name (ContainerStatuses ?pod))"
    and "?app \<in> set (ContainerStatuses ?pod)"
    and "Terminated ?app = Some \<lparr>StartedAt = 2000000000, FinishedAt = 12000000000\<rparr>"
    and "1 < length (Containers ?pod)"
    and "c_Name (Containers ?pod ! 1) = cs_Name ?app"
    by simp_all
  from container_window_start [OF this, of no_maps ?init]
  show ?thesis
    unfolding k by (simp add: d)
qed

subsection \<open>Recording many windows and ranking them\<close>

lemma update_fresh: "k \<notin> fst ` set al \<Longrightarrow> AList.update k v al = al @ [(k, v)]"
  by (induction al) auto

lemma recordWindows_Nil [simp]: "recordWindows [] m = m"
  by (simp add: recordWindows_def)

lemma recordWindows_Cons [simp]:
  "recordWindows ((k, s, e) # ws) m = recordWindows ws (recordWindow k s e m)"
  by (simp add: recordWindows_def)

lemma recordWindows_append:
  "recordWindows (ws @ ws') m = recordWindows ws' (recordWindows ws m)"
  by (simp add: recordWindows_def)

lemma coherent_no_maps: "coherent no_maps"
  by (simp add: coherent_def no_maps_def)

lemma coherent_recordWindow: "coherent m \<Longrightarrow> coherent (recordWindow k s e m)"
  by (auto simp: coherent_def durations_recordWindow)

lemma coherent_recordWindows: "coherent m \<Longrightarrow> coherent (recordWindows ws m)"
  by (induction ws arbitrary: m) (auto simp: coherent_recordWindow)

lemma coherent_sortDurations: "coherent m \<Longrightarrow> coherent (sortDurations m)"
  by (simp add: coherent_def sortDurations_def)

lemma set_durations_recordWindows:
  "coherent m \<Longrightarrow>
   set (durations (recordWindows ws m))
     = set (durations m) \<union> (\<lambda>(k, s, e). Seconds (Sub e s)) ` set ws"
proof (induction ws arbitrary: m)
  case Nil
  show ?case by simp
next
  case (Cons w ws)
  obtain k s e where w: "w = (k, s, e)" by (cases w)
  from Cons.prems have "coherent (recordWindow k s e m)"
    by (rule coherent_recordWindow)
  from Cons.IH [OF this] Cons.prems show ?case
    unfolding w by (auto simp: durations_recordWindow coherent_def)
qed

lemma toDuration_recordWindows_fresh:
  "distinct (map fst ws) \<Longrightarrow> fst ` set ws \<inter> fst ` set (toDuration m) = {} \<Longrightarrow>
   toDuration (recordWindows ws m)
     = toDuration m @ map (\<lambda>(k, s, e). (k, Seconds (Sub e s))) ws"
proof (induction ws arbitrary: m)
  case Nil
  show ?case by simp
next
  case (Cons w ws)
  obtain k s e where w: "w = (k, s, e)" by (cases w)
  from Cons.prems have fresh: "k \<notin> fst ` set (toDuration m)"
    unfolding w by auto
  from Cons.prems have "distinct (map fst ws)"
    and "fst ` set ws \<inter> fst ` set (toDuration (recordWindow k s e m)) = {}"
    unfolding w by (auto simp: dom_update)
  from Cons.IH [OF this] fresh show ?case
    unfolding w by (simp add: update_fresh)
qed

lemma startTimes_recordWindows_fresh:
  "distinct (map fst ws) \<Longrightarrow> fst ` set ws \<inter> fst ` set (startTimes m) = {} \<Longrightarrow>
   startTimes (recordWindows ws m) = startTimes m @ map (\<lambda>(k, s, e). (k, s)) ws"
proof (induction ws arbitrary: m)
  case Nil
  show ?case by simp
next
  case (Cons w ws)
  obtain k s e where w: "w = (k, s, e)" by (cases w)
  from Cons.prems have fresh: "k \<notin> fst ` set (startTimes m)"
    unfolding w by auto
  from Cons.prems have "distinct (map fst ws)"
    and "fst ` set ws \<inter> fst ` set (startTimes (recordWindow k s e m)) = {}"
    unfolding w by (auto simp: dom_update)
  from Cons.IH [OF this] fresh show ?case
    unfolding w by (simp add: update_fresh)
qed

lemma endTimes_recordWindows_fresh:
  "distinct (map fst ws) \<Longrightarrow> fst ` set ws \<inter> fst ` set (endTimes m) = {} \<Longrightarrow>
   endTimes (recordWindows ws m) = endTimes m @ map (\<lambda>(k, s, e). (k, e)) ws"
proof (induction ws arbitrary: m)
  case Nil
  show ?case by simp
next
  case (Cons w ws)
  obtain k s e where w: "w = (k, s, e)" by (cases w)
  from Cons.prems have fresh: "k \<notin> fst ` set (endTimes m)"
    unfolding w by auto
  from Cons.prems have "distinct (map fst ws)"
    and "fst ` set ws \<inter> fst ` set (endTimes (recordWindow k s e m)) = {}"
    unfolding w by (auto simp: dom_update)
  from Cons.IH [OF this] fresh show ?case
    unfolding w by (simp add: update_fresh)
qed



lemma rankGroup_member:
  "(k, v) \<in> set (toDuration m) \<Longrightarrow>
   (k, v, innerConcurrency k (startTimes m) (endTimes m)) \<in> set (rankGroup m v)"
  by (force simp: rankGroup_def)


lemma rankRows_member:
  "(k, v) \<in> set (toDuration m) \<Longrightarrow> v \<in> set (durations m) \<Longrightarrow>
   (k, v, innerConcurrency k (startTimes m) (endTimes m)) \<in> set (rankRows m)"
  using rankGroup_member [of k v m] by (auto simp: rankRows_def)

lemma rankRows_from_map:
  "(k, v, c) \<in> set (rankRows m) \<Longrightarrow> (k, v) \<in> set (toDuration m) \<and> v \<in> set (durations m)"
  by (auto simp: rankRows_def rankGroup_def)





lemma sortDurations_fields [simp]:
  "toDuration (sortDurations m) = toDuration m"
  "startTimes (sortDurations m) = startTimes m"
  "endTimes (sortDurations m) = endTimes m"
  "durationsMap (sortDurations m) = durationsMap m"
  "durations (sortDurations m) = sort (durations m)"
  by (simp_all add: sortDurations_def)


subsection \<open>Walking and looping\<close>

lemma Walk_walkFn:
  "Walk vs (walkFn kindOf kind) (items, out)
     = (None, (items @ concat (map (kept kindOf kind) vs), out @ concat (map printed vs)))"
proof (induction vs arbitrary: items out)
  case Nil
  show ?case by simp
next
  case (Cons v vs)
  show ?case
    by (cases v) (simp_all add: Cons.IH kept_def printed_def)
qed

lemma processPRFiles_eq:
  "processPRFiles vs
     = (concat (map (kept pr_Kind ''PipelineRun'') vs), None, concat (map printed vs))"
  by (simp add: processPRFiles_def Walk_walkFn)

lemma processPodFiles_eq:
  "processPodFiles vs = (concat (map (kept pod_Kind ''Pod'') vs), None, concat (map printed vs))"
  by (simp add: processPodFiles_def Walk_walkFn)

lemma eligible_run_started:
  "\<not> ignorePipelineRun pr prFilter \<Longrightarrow> \<exists>start. StartTime (pr_Status pr) = Some start"
  by (auto simp: ignorePipelineRun_def HasStarted_def split: if_splits option.splits)

lemma prLoop_records:
  "(\<forall>pr\<in>set items. \<not> ignorePipelineRun pr prFilter \<longrightarrow> CompletionTime (pr_Status pr) \<noteq> None)
   \<Longrightarrow> prLoop items prFilter m
       = Inr (recordWindows (map prWindow (filter (\<lambda>pr. \<not> ignorePipelineRun pr prFilter) items)) m)"
proof (induction items arbitrary: m)
  case Nil
  show ?case by simp
next
  case (Cons pr rest)
  show ?case
  proof (cases "ignorePipelineRun pr prFilter")
    case True
    with Cons show ?thesis by simp
  next
    case False
    with Cons.prems obtain completion where c: "CompletionTime (pr_Status pr) = Some completion"
      by auto
    from False obtain start where s: "StartTime (pr_Status pr) = Some start"
      by (auto dest: eligible_run_started)
    from Cons False c s show ?thesis
      by (simp add: processPipelineRun_def prWindow_def)
  qed
qed

lemma prLoop_panics:
  "\<exists>pr\<in>set items. \<not> ignorePipelineRun pr prFilter \<and> CompletionTime (pr_Status pr) = None
   \<Longrightarrow> prLoop items prFilter m = Inl NilPointerDereference"
proof (induction items arbitrary: m)
  case Nil
  then show ?case by simp
next
  case (Cons pr rest)
  show ?case
  proof (cases "ignorePipelineRun pr prFilter")
    case True
    with Cons show ?thesis by auto
  next
    case False
    show ?thesis
    proof (cases "processPipelineRun pr m")
      case (Inl e)
      with False show ?thesis by (cases e) simp
    next
      case (Inr m')
      with False have "CompletionTime (pr_Status pr) \<noteq> None"
        by (auto simp: processPipelineRun_def split: option.splits)
      with Cons.prems have "\<exists>pr\<in>set rest. \<not> ignorePipelineRun pr prFilter
          \<and> CompletionTime (pr_Status pr) = None"
        by auto
      from Cons.IH [OF this] False Inr show ?thesis by simp
    qed
  qed
qed

subsection \<open>The ranked rows of one invocation\<close>




subsection \<open>Two invocations in one process\<close>

lemma sortDurations_eqI:
  assumes "toDuration m = toDuration m'" and "startTimes m = startTimes m'"
    and "endTimes m = endTimes m'" and "durationsMap m = durationsMap m'"
    and "set (durations m) = set (durations m')"
    and "distinct (durations m)" and "distinct (durations m')"
  shows "sortDurations m = sortDurations m'"
proof -
  have "sort (durations m) = sort (durations m')"
    using assms(5,6,7) by (intro sorted_distinct_set_unique) simp_all
  with assms(1-4) show ?thesis
    by (simp add: sortDurations_def kind_maps.equality)
qed

lemma recordWindows_similar:
  assumes "toDuration m = toDuration m'" and "startTimes m = startTimes m'"
    and "endTimes m = endTimes m'" and "set (durations m) = set (durations m')"
    and "coherent m" and "coherent m'"
  shows "sortDurations (recordWindows ws m) = sortDurations (recordWindows ws m')"
  using assms
proof (induction ws arbitrary: m m')
  case Nil
  then show ?case
    by (auto intro!: sortDurations_eqI simp: coherent_def)
next
  case (Cons w ws)
  obtain k s e where w: "w = (k, s, e)" by (cases w)
  from Cons.prems have dm: "durationsMap m = durationsMap m'"
    by (simp add: coherent_def)
  show ?case
    unfolding w recordWindows_Cons
  proof (rule Cons.IH)
    show "set (durations (recordWindow k s e m)) = set (durations (recordWindow k s e m'))"
      using Cons.prems(4) dm by (simp add: durations_recordWindow)
  qed (use Cons.prems in \<open>simp_all add: coherent_recordWindow\<close>)
qed

lemma recordWindows_after_sort:
  "coherent m \<Longrightarrow>
   sortDurations (recordWindows ws (sortDurations m)) = sortDurations (recordWindows ws m)"
  by (rule recordWindows_similar) (simp_all add: coherent_sortDurations)

lemma prLoop_append:
  "prLoop (a @ b) prFilter m
     = (case prLoop a prFilter m of Inl e \<Rightarrow> Inl e | Inr m1 \<Rightarrow> prLoop b prFilter m1)"
proof (induction a arbitrary: m)
  case Nil
  show ?case by simp
next
  case (Cons pr a)
  show ?case
    by (cases "processPipelineRun pr m") (simp_all add: Cons.IH)
qed

lemma prLoop_coherent:
  "coherent m \<Longrightarrow> prLoop items prFilter m = Inr m' \<Longrightarrow> coherent m'"
proof (induction items arbitrary: m)
  case Nil
  then show ?case by simp
next
  case (Cons pr rest)
  show ?case
  proof (cases "ignorePipelineRun pr prFilter")
    case True
    with Cons show ?thesis by simp
  next
    case False
    with Cons.prems(2) obtain m1 where m1: "processPipelineRun pr m = Inr m1"
      and rest: "prLoop rest prFilter m1 = Inr m'"
      by (cases "processPipelineRun pr m") simp_all
    from m1 Cons.prems(1) have "coherent m1"
      by (auto simp: processPipelineRun_def coherent_recordWindow split: option.splits)
    from Cons.IH [OF this rest] show ?thesis .
  qed
qed

lemma prLoop_after_sort:
  assumes "coherent m"
  shows "map_sum id sortDurations (prLoop items prFilter (sortDurations m))
         = map_sum id sortDurations (prLoop items prFilter m)"
proof (cases "\<exists>pr\<in>set items. \<not> ignorePipelineRun pr prFilter
                \<and> CompletionTime (pr_Status pr) = None")
  case True
  then show ?thesis
    by (simp add: prLoop_panics)
next
  case False
  then have "\<forall>pr\<in>set items. \<not> ignorePipelineRun pr prFilter
               \<longrightarrow> CompletionTime (pr_Status pr) \<noteq> None"
    by auto
  then show ?thesis
    using assms by (simp add: prLoop_records recordWindows_after_sort)
qed

lemma parsePipelineRunList_eq:
  "parsePipelineRunList fileName visits prFilter m
     = map_sum id (\<lambda>m2. (Rows (rankRows m2), m2, concat (map printed visits)))
         (map_sum id sortDurations
            (prLoop (concat (map (kept pr_Kind ''PipelineRun'') visits)) prFilter m))"
  by (cases "prLoop (concat (map (kept pr_Kind ''PipelineRun'') visits)) prFilter m")
    (simp_all add: parsePipelineRunList_def processPRFiles_eq Let_def)

text \<open>
  C5, as stated, fails: the maps are package-level variables that no call resets. After a
  first call that read one finished run, a second call on an input without any run
  returns the first call's row, whereas the same call in a fresh process returns none.
\<close>

theorem second_invocation_counterexample:
  "map_sum id fst
     (parsePipelineRunList ''b.json'' [Document ''b.json'' []] []
        (fst (snd (projr
           (parsePipelineRunList ''a.json''
              [Document ''a.json''
                 [\<lparr>pr_Kind = ''PipelineRun'',
                   pr_Meta = \<lparr>Namespace = ''ci'', Name = ''run-1'', Labels = []\<rparr>,
                   pr_Status = \<lparr>StartTime = Some 10000000000,
                                 CompletionTime = Some 70000000000,
                                 Succeeded = Some ConditionTrue\<rparr>\<rparr>]]
              [] no_maps)))))
     = Inr (Rows [(''ci:run-1'', 60, 1)])
   \<and> map_sum id fst (parsePipelineRunList ''b.json'' [Document ''b.json'' []] [] no_maps)
     = Inr (Rows [])"
  by (simp add: parsePipelineRunList_eq kept_def ignorePipelineRun_def HasStarted_def
      IsDone_def zeroTime_def processPipelineRun_def recordWindow_def Let_def prKeyOf_def
      objKey_def Seconds_def Sub_def minDuration_def maxDuration_def sortDurations_def
      rankRows_def rankGroup_def innerConcurrency_def lookupTime_def no_maps_def)

subsection \<open>Failed reads\<close>

lemma kept_only_documents:
  "concat (map (kept kindOf kind) (filter (\<lambda>v. case v of Document path l \<Rightarrow> True | _ \<Rightarrow> False) vs))
     = concat (map (kept kindOf kind) vs)"
proof (induction vs)
  case Nil
  show ?case by simp
next
  case (Cons v vs)
  then show ?case
    by (cases v) (simp_all add: kept_def)
qed

text \<open>
  C2, as stated, fails in the revision that walks directory trees: the function given to
  \<open>filepath.Walk\<close> prints the failure and returns \<open>nil\<close>. With one unreadable file
  beside a readable one the call succeeds with the readable file's row; with a missing
  path it succeeds with no rows. Neither aborts.
\<close>

theorem unreadable_file_counterexample:
  "parsePipelineRunList ''dir''
     [Directory ''dir'',
      Unreadable ''dir/b.json'' ''permission denied'',
      Document ''dir/a.json''
        [\<lparr>pr_Kind = ''PipelineRun'',
          pr_Meta = \<lparr>Namespace = ''ci'', Name = ''run-1'', Labels = []\<rparr>,
          pr_Status = \<lparr>StartTime = Some 10000000000, CompletionTime = Some 70000000000,
                        Succeeded = Some ConditionTrue\<rparr>\<rparr>]]
     [] no_maps
   = Inr (Rows [(''ci:run-1'', 60, 1)],
          \<lparr>startTimes = [(''ci:run-1'', 10000000000)],
           endTimes = [(''ci:run-1'', 70000000000)],
           toDuration = [(''ci:run-1'', 60)], durations = [60], durationsMap = {60}\<rparr>,
          [''problem reading dir/b.json: permission denied'' @ [CHR 0x0A]])
   \<and> parsePipelineRunList ''gone.json''
       [WalkError ''gone.json'' ''lstat gone.json: no such file or directory''] [] no_maps
   = Inr (Rows [], no_maps,
          [''filepath walk error: lstat gone.json: no such file or directory'' @ [CHR 0x0A]])"
  by (simp add: parsePipelineRunList_eq kept_def printed_def ignorePipelineRun_def
      HasStarted_def IsDone_def zeroTime_def processPipelineRun_def recordWindow_def Let_def
      prKeyOf_def objKey_def Seconds_def Sub_def minDuration_def maxDuration_def
      sortDurations_def rankRows_def rankGroup_def innerConcurrency_def lookupTime_def
      no_maps_def)

subsection \<open>Pods without a terminated container\<close>

lemma recorded_windows:
  assumes "distinct (map fst ws)"
  shows "toDuration (recordWindows ws no_maps) = map (\<lambda>(k, s, e). (k, Seconds (Sub e s))) ws"
    and "set (durations (recordWindows ws no_maps)) = (\<lambda>(k, s, e). Seconds (Sub e s)) ` set ws"
    and "coherent (recordWindows ws no_maps)"
proof -
  have "fst ` set ws \<inter> fst ` set (toDuration no_maps) = {}"
    by (simp add: no_maps_def)
  with assms have "toDuration (recordWindows ws no_maps)
      = toDuration no_maps @ map (\<lambda>(k, s, e). (k, Seconds (Sub e s))) ws"
    by (rule toDuration_recordWindows_fresh)
  then show "toDuration (recordWindows ws no_maps) = map (\<lambda>(k, s, e). (k, Seconds (Sub e s))) ws"
    by (simp add: no_maps_def)
  from set_durations_recordWindows [OF coherent_no_maps, of ws]
  show "set (durations (recordWindows ws no_maps)) = (\<lambda>(k, s, e). Seconds (Sub e s)) ` set ws"
    by (simp add: no_maps_def)
  show "coherent (recordWindows ws no_maps)"
    by (rule coherent_recordWindows [OF coherent_no_maps])
qed

lemma window_in_map:
  "(k, s, e) \<in> set ws \<Longrightarrow>
   (k, Seconds (Sub e s)) \<in> set (map (\<lambda>(k, s, e). (k, Seconds (Sub e s))) ws)"
  by (induction ws) auto

lemma window_in_durations:
  "(k, s, e) \<in> set ws \<Longrightarrow> Seconds (Sub e s) \<in> (\<lambda>(k, s, e). Seconds (Sub e s)) ` set ws"
  by (induction ws) auto

lemma podLoop_records:
  "podLoop items prFilter False (pm, cm)
     = Inr (recordWindows (map podWindow (filter (\<lambda>p. \<not> ignorePod p prFilter) items)) pm, cm)"
proof (induction items arbitrary: pm)
  case Nil
  show ?case by simp
next
  case (Cons pod rest)
  show ?case
  proof (cases "ignorePod pod prFilter")
    case True
    with Cons show ?thesis by simp
  next
    case False
    then obtain start where "pod_StartTime pod = Some start"
      by (auto dest: eligible_pod_started)
    with False Cons show ?thesis
      by (simp add: processPod_def podWindow_def)
  qed
qed

lemma terminatedTime_none:
  "\<forall>status\<in>set l. Terminated status = None \<Longrightarrow> terminatedTime l t = t"
  by (induction l) simp_all

lemma negative_from_zero_time:
  assumes "zeroTime < start"
  shows "Seconds (Sub zeroTime start) < 0"
proof -
  from assms have "Sub zeroTime start < 0"
    by (simp add: Sub_def Let_def minDuration_def zeroTime_def)
  then show ?thesis
    by (simp add: Seconds_def divide_less_0_iff)
qed

text \<open>
  C10. An eligible pod that has no terminated container status and started after the
  zero time: \<open>processPod\<close> records the zero time as its end and a negative duration
  (saturated at the least \<open>time.Duration\<close> when the start is more than 292 years after
  the zero time), and the pod-list analysis of a fresh process, over pods with pairwise
  different keys, returns a row for the pod with that negative duration.
\<close>

theorem pod_without_terminated_container_is_listed:
  assumes "\<not> ignorePod pod prFilter"
    and "\<forall>status\<in>set (ContainerStatuses pod). Terminated status = None"
    and "pod_StartTime pod = Some start" and "zeroTime < start"
    and "pod \<in> set (fst (processPodFiles visits))"
    and "distinct (map podKeyOf
           (filter (\<lambda>p. \<not> ignorePod p prFilter) (fst (processPodFiles visits))))"
  shows "(\<exists>m'. processPod pod m = Inr m'
           \<and> lookupTime (endTimes m') (podKeyOf pod) = zeroTime
           \<and> map_of (toDuration m') (podKeyOf pod) = Some (Seconds (Sub zeroTime start)))
     \<and> Seconds (Sub zeroTime start) < 0
     \<and> (\<exists>rows maps out c.
           parsePodList fileName visits prFilter False (no_maps, cm) = Inr (Rows rows, maps, out)
           \<and> (podKeyOf pod, Seconds (Sub zeroTime start), c) \<in> set rows)"
proof -
  define items where "items = concat (map (kept pod_Kind ''Pod'') visits)"
  define eligible where "eligible = filter (\<lambda>p. \<not> ignorePod p prFilter) items"
  define mm where "mm = recordWindows (map podWindow eligible) no_maps"
  have tt: "terminatedTime (ContainerStatuses pod) zeroTime = zeroTime"
    using assms(2) by (rule terminatedTime_none)
  have one: "\<exists>m'. processPod pod m = Inr m'
           \<and> lookupTime (endTimes m') (podKeyOf pod) = zeroTime
           \<and> map_of (toDuration m') (podKeyOf pod) = Some (Seconds (Sub zeroTime start))"
    using assms(3) tt by (simp add: processPod_def update_conv')
  have neg: "Seconds (Sub zeroTime start) < 0"
    using assms(4) by (rule negative_from_zero_time)
  have "fst \<circ> podWindow = podKeyOf"
    by (rule ext) (simp add: podWindow_def)
  then have "map fst (map podWindow eligible) = map podKeyOf eligible"
    by simp
  with assms(6) have "distinct (map fst (map podWindow eligible))"
    by (simp only: eligible_def items_def processPodFiles_eq fst_conv)
  note rec = recorded_windows [OF this]
  have w: "podWindow pod = (podKeyOf pod, start, zeroTime)"
    using assms(3) tt by (simp add: podWindow_def)
  from assms(1,5) have "pod \<in> set eligible"
    by (simp add: eligible_def items_def processPodFiles_eq)
  then have "podWindow pod \<in> set (map podWindow eligible)"
    by simp
  with w have mem: "(podKeyOf pod, start, zeroTime) \<in> set (map podWindow eligible)"
    by simp
  have "(podKeyOf pod, Seconds (Sub zeroTime start)) \<in> set (toDuration (sortDurations mm))"
    using mem unfolding mm_def sortDurations_fields rec(1) by (rule window_in_map)
  moreover have "Seconds (Sub zeroTime start) \<in> set (durations (sortDurations mm))"
    using mem unfolding mm_def sortDurations_fields set_sort rec(2) by (rule window_in_durations)
  ultimately have row: "\<exists>c. (podKeyOf pod, Seconds (Sub zeroTime start), c)
      \<in> set (rankRows (sortDurations mm))"
    by (blast dest: rankRows_member)
  have "parsePodList fileName visits prFilter False (no_maps, cm)
      = Inr (Rows (rankRows (sortDurations mm)), (sortDurations mm, cm),
             concat (map printed visits))"
    by (simp add: parsePodList_def processPodFiles_eq podLoop_records mm_def eligible_def
        items_def Let_def)
  with row have flat: "\<exists>rows maps out c.
           parsePodList fileName visits prFilter False (no_maps, cm) = Inr (Rows rows, maps, out)
           \<and> (podKeyOf pod, Seconds (Sub zeroTime start), c) \<in> set rows"
    by blast
  from one neg flat show ?thesis
    by (intro conjI)
qed

theorem pod_without_terminated_container_is_listed_witness:
  "(\<exists>rows maps out c.
      parsePodList ''pods.json''
        [Document ''pods.json''
          [\<lparr>pod_Kind = ''Pod'',
            pod_Meta = \<lparr>Namespace = ''ci'', Name = ''run-1-build-pod'',
                        Labels = [(''tekton.dev/pipelineRun'', ''run-1'')]\<rparr>,
            Containers = [\<lparr>c_Name = ''step-a''\<rparr>],
            pod_StartTime = Some 63837000000000000000, Phase = PodFailed,
            ContainerStatuses = [\<lparr>cs_Name = ''step-a'', Terminated = None\<rparr>]\<rparr>]]
        [] False (no_maps, no_maps) = Inr (Rows rows, maps, out)
      \<and> (''ci:run-1-build-pod'', Seconds minDuration, c) \<in> set rows)
   \<and> Seconds minDuration < 0"
proof -
  let ?pod = "\<lparr>pod_Kind = ''Pod'',
            pod_Meta = \<lparr>Namespace = ''ci'', Name = ''run-1-build-pod'',
                        Labels = [(''tekton.dev/pipelineRun'', ''run-1'')]\<rparr>,
            Containers = [\<lparr>c_Name = ''step-a''\<rparr>],
            pod_StartTime = Some 63837000000000000000, Phase = PodFailed,
            ContainerStatuses = [\<lparr>cs_Name = ''step-a'', Terminated = None\<rparr>]\<rparr>"
  have 1: "\<not> ignorePod ?pod []"
    by (simp add: ignorePod_def)
  have 2: "\<forall>status\<in>set (ContainerStatuses ?pod). Terminated status = None"
    by simp
  have 3: "pod_StartTime ?pod = Some 63837000000000000000"
    by simp
  have 4: "zeroTime < 63837000000000000000"
    by (simp add: zeroTime_def)
  have 5: "?pod \<in> set (fst (processPodFiles [Document ''pods.json'' [?pod]]))"
    by (simp add: processPodFiles_eq kept_def)
  have 6: "distinct (map podKeyOf
           (filter (\<lambda>p. \<not> ignorePod p []) (fst (processPodFiles [Document ''pods.json'' [?pod]]))))"
    by (simp add: processPodFiles_eq kept_def)
  have k: "podKeyOf ?pod = ''ci:run-1-build-pod''"
    by (simp add: podKeyOf_def objKey_def)
  have s: "Sub zeroTime 63837000000000000000 = minDuration"
    by (simp add: Sub_def zeroTime_def minDuration_def maxDuration_def)
  note t = pod_without_terminated_container_is_listed [OF 1 2 3 4 5 6, of no_maps "''pods.json''"
      no_maps, unfolded k s]
  from t [THEN conjunct2, THEN conjunct2] t [THEN conjunct2, THEN conjunct1]
  show ?thesis
    by (rule conjI)
qed

subsection \<open>Aggregation over the children of a run\<close>

lemma trTotals_eq:
  "trTotals prkey rows (t, mx)
     = (t + sum_list (map (fst \<circ> snd) (filter (\<lambda>row. HasPrefix (fst row) prkey) rows)),
        Max (insert mx (set (map (snd \<circ> snd) (filter (\<lambda>row. HasPrefix (fst row) prkey) rows)))))"
proof (induction rows arbitrary: t mx)
  case Nil
  show ?case by simp
next
  case (Cons row rows)
  obtain k d c where row: "row = (k, d, c)" by (cases row)
  let ?S = "set (map (snd \<circ> snd) (filter (\<lambda>row. HasPrefix (fst row) prkey) rows))"
  have fin: "finite ?S" by simp
  show ?case
  proof (cases "HasPrefix k prkey")
    case False
    then show ?thesis
      unfolding row by (simp add: Cons.IH)
  next
    case True
    show ?thesis
    proof (cases "c > mx")
      case True
      then have "mx \<le> c" by simp
      from Max_insert_smaller [OF fin this] have "Max (insert mx (insert c ?S)) = Max (insert c ?S)" .
      with \<open>HasPrefix k prkey\<close> True show ?thesis
        unfolding row by (simp add: Cons.IH add.assoc)
    next
      case False
      then have "c \<le> mx" by simp
      from Max_insert_smaller [OF fin this] have "Max (insert c (insert mx ?S)) = Max (insert mx ?S)" .
      then have "Max (insert mx (insert c ?S)) = Max (insert mx ?S)"
        by (simp add: insert_commute)
      with \<open>HasPrefix k prkey\<close> False show ?thesis
        unfolding row by (simp add: Cons.IH add.assoc)
    qed
  qed
qed

lemma podTotals_duration:
  "fst (podTotals prkey rows (t, mx))
     = t + sum_list (map (fst \<circ> snd) (filter (\<lambda>row. HasPrefix (fst row) prkey) rows))"
proof (induction rows arbitrary: t mx)
  case Nil
  show ?case by simp
next
  case (Cons row rows)
  obtain k d c where row: "row = (k, d, c)" by (cases row)
  show ?case
    unfolding row by (simp add: Cons.IH Let_def add.assoc)
qed

lemma podTotals_concurrency:
  "0 \<le> mx \<Longrightarrow> \<forall>row\<in>set rows. 0 \<le> snd (snd row) \<Longrightarrow>
   snd (podTotals prkey rows (t, mx))
     = mx + sum_list (map (snd \<circ> snd) (filter (\<lambda>row. HasPrefix (fst row) prkey) rows))"
proof (induction rows arbitrary: t mx)
  case Nil
  show ?case by simp
next
  case (Cons row rows)
  obtain k d c where row: "row = (k, d, c)" by (cases row)
  from Cons.prems have c: "0 \<le> c" and rest: "\<forall>row\<in>set rows. 0 \<le> snd (snd row)"
    unfolding row by simp_all
  show ?case
  proof (cases "HasPrefix k prkey")
    case False
    with Cons.IH [OF Cons.prems(1) rest] show ?thesis
      unfolding row by simp
  next
    case True
    from Cons.prems(1) c have "0 \<le> mx + c" by simp
    from Cons.IH [OF this rest] True Cons.prems(1) show ?thesis
      unfolding row by (simp add: Let_def add.assoc)
  qed
qed

text \<open>
  In the revisions with the package-level maps, the line of a pipeline run with duration
  \<open>D\<close> reports, for task runs and for pods
  alike, the sum of the durations of the rows whose key has the run's key as a prefix,
  the run's duration minus that sum (whatever its sign), and that sum divided by \<open>D\<close>
  (a \<open>float64\<close> division: the plain quotient when \<open>D\<close> is not zero). A run of 100
  seconds with children of 30 and 40 seconds gets 70, 30 and 7/10. There is one line per
  pipeline-run row, in the order of the rows.
\<close>

theorem line_attributes_children:
  "taskRunsDuration (aggregateLine (prkey, D, C) trRows podRows)
     = sum_list (map (fst \<circ> snd) (filter (\<lambda>row. HasPrefix (fst row) prkey) trRows))
   \<and> taskRunsDelta (aggregateLine (prkey, D, C) trRows podRows)
     = D - taskRunsDuration (aggregateLine (prkey, D, C) trRows podRows)
   \<and> taskRunsPercentage (aggregateLine (prkey, D, C) trRows podRows)
     = fdiv (taskRunsDuration (aggregateLine (prkey, D, C) trRows podRows)) D
   \<and> podsDuration (aggregateLine (prkey, D, C) trRows podRows)
     = sum_list (map (fst \<circ> snd) (filter (\<lambda>row. HasPrefix (fst row) prkey) podRows))
   \<and> podsDelta (aggregateLine (prkey, D, C) trRows podRows)
     = D - podsDuration (aggregateLine (prkey, D, C) trRows podRows)
   \<and> podsPercentage (aggregateLine (prkey, D, C) trRows podRows)
     = fdiv (podsDuration (aggregateLine (prkey, D, C) trRows podRows)) D
   \<and> (D \<noteq> 0 \<longrightarrow> fdiv x D = Ratio (x / D))
   \<and> l_key (aggregateLine (prkey, D, C) trRows podRows) = prkey
   \<and> l_duration (aggregateLine (prkey, D, C) trRows podRows) = D
   \<and> map l_key (aggregateLines prRows trRows podRows) = map fst prRows
   \<and> length (aggregateLines prRows trRows podRows) = length prRows
   \<and> (i < length prRows \<longrightarrow>
        aggregateLines prRows trRows podRows ! i = aggregateLine (prRows ! i) trRows podRows)
   \<and> taskRunsDuration (aggregateLine (''ci:run-1'', 100, 1)
        [(''ci:run-1-a'', 30, 1), (''ci:run-1-b'', 40, 1)] []) = 70
   \<and> taskRunsDelta (aggregateLine (''ci:run-1'', 100, 1)
        [(''ci:run-1-a'', 30, 1), (''ci:run-1-b'', 40, 1)] []) = 30
   \<and> taskRunsPercentage (aggregateLine (''ci:run-1'', 100, 1)
        [(''ci:run-1-a'', 30, 1), (''ci:run-1-b'', 40, 1)] []) = Ratio (7 / 10)"
proof -
  obtain tt tm where tr: "trTotals prkey trRows (0, 0) = (tt, tm)"
    by (cases "trTotals prkey trRows (0, 0)")
  obtain pt pm where pod: "podTotals prkey podRows (0, 0) = (pt, pm)"
    by (cases "podTotals prkey podRows (0, 0)")
  from tr have tt: "tt = sum_list (map (fst \<circ> snd) (filter (\<lambda>row. HasPrefix (fst row) prkey) trRows))"
    by (simp add: trTotals_eq)
  from pod podTotals_duration [of prkey podRows 0 0]
  have pt: "pt = sum_list (map (fst \<circ> snd) (filter (\<lambda>row. HasPrefix (fst row) prkey) podRows))"
    by simp
  have fields: "taskRunsDuration (aggregateLine (prkey, D, C) trRows podRows) = tt"
    "taskRunsDelta (aggregateLine (prkey, D, C) trRows podRows) = D - tt"
    "taskRunsPercentage (aggregateLine (prkey, D, C) trRows podRows) = fdiv tt D"
    "podsDuration (aggregateLine (prkey, D, C) trRows podRows) = pt"
    "podsDelta (aggregateLine (prkey, D, C) trRows podRows) = D - pt"
    "podsPercentage (aggregateLine (prkey, D, C) trRows podRows) = fdiv pt D"
    "l_key (aggregateLine (prkey, D, C) trRows podRows) = prkey"
    "l_duration (aggregateLine (prkey, D, C) trRows podRows) = D"
    by (simp_all add: aggregateLine_def tr pod)
  have q: "D \<noteq> 0 \<longrightarrow> fdiv x D = Ratio (x / D)"
    by (simp add: fdiv_def)
  have keys: "map l_key (aggregateLines prRows trRows podRows) = map fst prRows"
    by (induction prRows)
      (auto simp: aggregateLines_def aggregateLine_def split: prod.splits)
  have each: "length (aggregateLines prRows trRows podRows) = length prRows"
    "i < length prRows \<longrightarrow>
        aggregateLines prRows trRows podRows ! i = aggregateLine (prRows ! i) trRows podRows"
    by (simp_all add: aggregateLines_def)
  have ex: "taskRunsDuration (aggregateLine (''ci:run-1'', 100, 1)
        [(''ci:run-1-a'', 30, 1), (''ci:run-1-b'', 40, 1)] []) = 70"
    "taskRunsDelta (aggregateLine (''ci:run-1'', 100, 1)
        [(''ci:run-1-a'', 30, 1), (''ci:run-1-b'', 40, 1)] []) = 30"
    "taskRunsPercentage (aggregateLine (''ci:run-1'', 100, 1)
        [(''ci:run-1-a'', 30, 1), (''ci:run-1-b'', 40, 1)] []) = Ratio (7 / 10)"
    by (simp_all add: aggregateLine_def HasPrefix_def fdiv_def)
  show ?thesis
    unfolding fields ex keys using q each by (simp add: tt pt)
qed

theorem line_attributes_children_witness:
  "fdiv 30 10 = Ratio 3
   \<and> podsDelta (aggregateLine (''ci:run-1'', 10, 1) [] [(''ci:run-1-a-pod'', 30, 1)]) = - 20
   \<and> podsPercentage (aggregateLine (''ci:run-1'', 10, 1) [] [(''ci:run-1-a-pod'', 30, 1)])
      = fdiv 30 10"
proof -
  note t = line_attributes_children [of "''ci:run-1''" 10 1 "[]" "[(''ci:run-1-a-pod'', 30, 1)]"
      30 "[]"]
  have d: "podsDuration (aggregateLine (''ci:run-1'', 10, 1) [] [(''ci:run-1-a-pod'', 30, 1)]) = 30"
    using t by (simp add: HasPrefix_def)
  from t have "fdiv 30 10 = Ratio (30 / 10)"
    by simp
  moreover from t d
  have "podsDelta (aggregateLine (''ci:run-1'', 10, 1) [] [(''ci:run-1-a-pod'', 30, 1)]) = 10 - 30"
    by simp
  moreover from t d
  have "podsPercentage (aggregateLine (''ci:run-1'', 10, 1) [] [(''ci:run-1-a-pod'', 30, 1)])
      = fdiv 30 10"
    by simp
  ultimately show ?thesis
    by simp
qed

text \<open>
  C1 holds for task runs and not for pods. Two pods of run \<open>ci:run-1\<close> that do not
  overlap have concurrency 1 each, as the pod-list analysis returns them; the line of the
  run reports 2 as the maximum pod concurrency, the sum, because the pod loop adds each
  concurrency to \<open>maxPodConcurrency\<close> before comparing. The task-run loop, which only
  compares, reports 1 on rows of the same shape.
\<close>

theorem pod_max_concurrency_adds_up:
  "map_sum id fst
     (parsePodList ''pods.json''
        [Document ''pods.json''
          [\<lparr>pod_Kind = ''Pod'',
            pod_Meta = \<lparr>Namespace = ''ci'', Name = ''run-1-a-pod'',
                        Labels = [(''tekton.dev/pipelineRun'', ''run-1'')]\<rparr>,
            Containers = [\<lparr>c_Name = ''step''\<rparr>],
            pod_StartTime = Some 1000000000, Phase = PodSucceeded,
            ContainerStatuses =
              [\<lparr>cs_Name = ''step'',
                Terminated = Some \<lparr>StartedAt = 1000000000, FinishedAt = 11000000000\<rparr>\<rparr>]\<rparr>,
           \<lparr>pod_Kind = ''Pod'',
            pod_Meta = \<lparr>Namespace = ''ci'', Name = ''run-1-b-pod'',
                        Labels = [(''tekton.dev/pipelineRun'', ''run-1'')]\<rparr>,
            Containers = [\<lparr>c_Name = ''step''\<rparr>],
            pod_StartTime = Some 21000000000, Phase = PodSucceeded,
            ContainerStatuses =
              [\<lparr>cs_Name = ''step'',
                Terminated = Some \<lparr>StartedAt = 21000000000, FinishedAt = 31000000000\<rparr>\<rparr>]\<rparr>]]
        [] False (no_maps, no_maps))
     = Inr (Rows [(''ci:run-1-a-pod'', 10, 1), (''ci:run-1-b-pod'', 10, 1)])
   \<and> podsMaxConcurrency (aggregateLine (''ci:run-1'', 100, 1) []
        [(''ci:run-1-a-pod'', 10, 1), (''ci:run-1-b-pod'', 10, 1)]) = 2
   \<and> Max {1, 1} = (1 :: int)
   \<and> taskRunsMaxConcurrency (aggregateLine (''ci:run-1'', 100, 1)
        [(''ci:run-1-a'', 10, 1), (''ci:run-1-b'', 10, 1)] []) = 1"
proof -
  have rows: "map_sum id fst
     (parsePodList ''pods.json''
        [Document ''pods.json''
          [\<lparr>pod_Kind = ''Pod'',
            pod_Meta = \<lparr>Namespace = ''ci'', Name = ''run-1-a-pod'',
                        Labels = [(''tekton.dev/pipelineRun'', ''run-1'')]\<rparr>,
            Containers = [\<lparr>c_Name = ''step''\<rparr>],
            pod_StartTime = Some 1000000000, Phase = PodSucceeded,
            ContainerStatuses =
              [\<lparr>cs_Name = ''step'',
                Terminated = Some \<lparr>StartedAt = 1000000000, FinishedAt = 11000000000\<rparr>\<rparr>]\<rparr>,
           \<lparr>pod_Kind = ''Pod'',
            pod_Meta = \<lparr>Namespace = ''ci'', Name = ''run-1-b-pod'',
                        Labels = [(''tekton.dev/pipelineRun'', ''run-1'')]\<rparr>,
            Containers = [\<lparr>c_Name = ''step''\<rparr>],
            pod_StartTime = Some 21000000000, Phase = PodSucceeded,
            ContainerStatuses =
              [\<lparr>cs_Name = ''step'',
                Terminated = Some \<lparr>StartedAt = 21000000000, FinishedAt = 31000000000\<rparr>\<rparr>]\<rparr>]]
        [] False (no_maps, no_maps))
     = Inr (Rows [(''ci:run-1-a-pod'', 10, 1), (''ci:run-1-b-pod'', 10, 1)])"
    by (simp add: parsePodList_def processPodFiles_eq kept_def printed_def ignorePod_def
        processPod_def After_def Before_def recordWindow_def Let_def podKeyOf_def objKey_def
        Seconds_def Sub_def minDuration_def maxDuration_def zeroTime_def sortDurations_def
        rankRows_def rankGroup_def innerConcurrency_def lookupTime_def no_maps_def)
  have pods: "podsMaxConcurrency (aggregateLine (''ci:run-1'', 100, 1) []
        [(''ci:run-1-a-pod'', 10, 1), (''ci:run-1-b-pod'', 10, 1)]) = 2"
    by (simp add: aggregateLine_def HasPrefix_def)
  have mx: "Max {1, 1} = (1 :: int)"
    by simp
  have trs: "taskRunsMaxConcurrency (aggregateLine (''ci:run-1'', 100, 1)
        [(''ci:run-1-a'', 10, 1), (''ci:run-1-b'', 10, 1)] []) = 1"
    by (simp add: aggregateLine_def HasPrefix_def)
  from rows pods mx trs show ?thesis
    by (intro conjI)
qed

subsection \<open>Task runs and pods: loops as recorded windows\<close>

lemma processTRFiles_eq:
  "processTRFiles vs = (concat (map (kept tr_Kind ''TaskRun'') vs), None, concat (map printed vs))"
  by (simp add: processTRFiles_def Walk_walkFn)

lemma eligible_taskrun_started:
  "\<not> ignoreTaskRun tr prFilter \<Longrightarrow> \<exists>start. StartTime (tr_Status tr) = Some start"
  by (auto simp: ignoreTaskRun_def HasStarted_def split: if_splits option.splits)

lemma trLoop_records:
  "(\<forall>tr\<in>set items. \<not> ignoreTaskRun tr prFilter \<longrightarrow> CompletionTime (tr_Status tr) \<noteq> None)
   \<Longrightarrow> trLoop items prFilter m
       = Inr (recordWindows (map trWindow (filter (\<lambda>tr. \<not> ignoreTaskRun tr prFilter) items)) m)"
proof (induction items arbitrary: m)
  case Nil
  show ?case by simp
next
  case (Cons tr rest)
  show ?case
  proof (cases "ignoreTaskRun tr prFilter")
    case True
    with Cons show ?thesis by simp
  next
    case False
    with Cons.prems obtain completion where c: "CompletionTime (tr_Status tr) = Some completion"
      by auto
    from False obtain start where s: "StartTime (tr_Status tr) = Some start"
      by (auto dest: eligible_taskrun_started)
    from Cons False c s show ?thesis
      by (simp add: processTaskRun_def trWindow_def)
  qed
qed

lemma trLoop_panics:
  "\<exists>tr\<in>set items. \<not> ignoreTaskRun tr prFilter \<and> CompletionTime (tr_Status tr) = None
   \<Longrightarrow> trLoop items prFilter m = Inl NilPointerDereference"
proof (induction items arbitrary: m)
  case Nil
  then show ?case by simp
next
  case (Cons tr rest)
  show ?case
  proof (cases "ignoreTaskRun tr prFilter")
    case True
    with Cons show ?thesis by auto
  next
    case False
    show ?thesis
    proof (cases "processTaskRun tr m")
      case (Inl e)
      with False show ?thesis by (cases e) simp
    next
      case (Inr m')
      with False have "CompletionTime (tr_Status tr) \<noteq> None"
        by (auto simp: processTaskRun_def split: option.splits)
      with Cons.prems have "\<exists>tr\<in>set rest. \<not> ignoreTaskRun tr prFilter
          \<and> CompletionTime (tr_Status tr) = None"
        by auto
      from Cons.IH [OF this] False Inr show ?thesis by simp
    qed
  qed
qed

lemma trLoop_append:
  "trLoop (a @ b) prFilter m
     = (case trLoop a prFilter m of Inl e \<Rightarrow> Inl e | Inr m1 \<Rightarrow> trLoop b prFilter m1)"
proof (induction a arbitrary: m)
  case Nil
  show ?case by simp
next
  case (Cons tr a)
  show ?case
    by (cases "processTaskRun tr m") (simp_all add: Cons.IH)
qed

lemma trLoop_coherent:
  "coherent m \<Longrightarrow> trLoop items prFilter m = Inr m' \<Longrightarrow> coherent m'"
proof (induction items arbitrary: m)
  case Nil
  then show ?case by simp
next
  case (Cons tr rest)
  show ?case
  proof (cases "ignoreTaskRun tr prFilter")
    case True
    with Cons show ?thesis by simp
  next
    case False
    with Cons.prems(2) obtain m1 where m1: "processTaskRun tr m = Inr m1"
      and rest: "trLoop rest prFilter m1 = Inr m'"
      by (cases "processTaskRun tr m") simp_all
    from m1 Cons.prems(1) have "coherent m1"
      by (auto simp: processTaskRun_def coherent_recordWindow split: option.splits)
    from Cons.IH [OF this rest] show ?thesis .
  qed
qed

lemma trLoop_after_sort:
  assumes "coherent m"
  shows "map_sum id sortDurations (trLoop items prFilter (sortDurations m))
         = map_sum id sortDurations (trLoop items prFilter m)"
proof (cases "\<exists>tr\<in>set items. \<not> ignoreTaskRun tr prFilter
                \<and> CompletionTime (tr_Status tr) = None")
  case True
  then show ?thesis
    by (simp add: trLoop_panics)
next
  case False
  then have "\<forall>tr\<in>set items. \<not> ignoreTaskRun tr prFilter
               \<longrightarrow> CompletionTime (tr_Status tr) \<noteq> None"
    by auto
  then show ?thesis
    using assms by (simp add: trLoop_records recordWindows_after_sort)
qed

lemma parseTaskRunList_eq:
  "parseTaskRunList fileName visits prFilter m
     = map_sum id (\<lambda>m2. (Rows (rankRows m2), m2, concat (map printed visits)))
         (map_sum id sortDurations
            (trLoop (concat (map (kept tr_Kind ''TaskRun'') visits)) prFilter m))"
  by (cases "trLoop (concat (map (kept tr_Kind ''TaskRun'') visits)) prFilter m")
    (simp_all add: parseTaskRunList_def processTRFiles_eq Let_def)

lemma containerLoop_records:
  "containerLoop pod l m
     = recordWindows
         (concat (map (\<lambda>cstatus. case Terminated cstatus of
                    None \<Rightarrow> []
                  | Some terminated \<Rightarrow>
                      [(containerKey pod (cs_Name cstatus), windowStart pod cstatus terminated,
                        FinishedAt terminated)]) l)) m"
proof (induction l arbitrary: m)
  case Nil
  show ?case by simp
next
  case (Cons c rest)
  show ?case
    by (cases "Terminated c") (simp_all add: Cons.IH)
qed

lemma processContainers_records:
  "processContainers pod m = recordWindows (containerWindows pod) m"
  by (simp add: processContainers_def containerWindows_def containerLoop_records)

lemma podLoop_any:
  "podLoop items prFilter containerOnly (pm, cm)
     = Inr (if containerOnly
            then (pm, recordWindows
                        (concat (map containerWindows
                                   (filter (\<lambda>p. \<not> ignorePod p prFilter) items))) cm)
            else (recordWindows (map podWindow (filter (\<lambda>p. \<not> ignorePod p prFilter) items)) pm,
                  cm))"
proof (cases containerOnly)
  case False
  then show ?thesis
    by (simp add: podLoop_records)
next
  case True
  have "podLoop items prFilter True (pm, cm)
     = Inr (pm, recordWindows
                  (concat (map containerWindows
                             (filter (\<lambda>p. \<not> ignorePod p prFilter) items))) cm)"
  proof (induction items arbitrary: cm)
    case Nil
    show ?case by simp
  next
    case (Cons pod rest)
    show ?case
      by (simp add: Cons.IH processContainers_records recordWindows_append)
  qed
  with True show ?thesis
    by simp
qed

lemma parsePodList_eq:
  "parsePodList fileName visits prFilter containerOnly (pm, cm)
     = Inr (if containerOnly
            then (Rows (rankRows (sortDurations (recordWindows
                     (concat (map containerWindows (filter (\<lambda>p. \<not> ignorePod p prFilter)
                        (concat (map (kept pod_Kind ''Pod'') visits))))) cm))),
                  (pm, sortDurations (recordWindows
                     (concat (map containerWindows (filter (\<lambda>p. \<not> ignorePod p prFilter)
                        (concat (map (kept pod_Kind ''Pod'') visits))))) cm)),
                  concat (map printed visits))
            else (Rows (rankRows (sortDurations (recordWindows
                     (map podWindow (filter (\<lambda>p. \<not> ignorePod p prFilter)
                        (concat (map (kept pod_Kind ''Pod'') visits)))) pm))),
                  (sortDurations (recordWindows
                     (map podWindow (filter (\<lambda>p. \<not> ignorePod p prFilter)
                        (concat (map (kept pod_Kind ''Pod'') visits)))) pm), cm),
                  concat (map printed visits)))"
  by (simp add: parsePodList_def processPodFiles_eq podLoop_any Let_def)

lemma recordWindows_two_calls:
  "sortDurations (recordWindows ws2 (sortDurations (recordWindows ws1 no_maps)))
     = sortDurations (recordWindows (ws1 @ ws2) no_maps)"
proof -
  have "coherent (recordWindows ws1 no_maps)"
    by (rule coherent_recordWindows [OF coherent_no_maps])
  then show ?thesis
    by (simp add: recordWindows_after_sort recordWindows_append)
qed

text \<open>
  C5, amended. The maps outlive a call. When a first call of \<open>parsePipelineRunList\<close>,
  \<open>parseTaskRunList\<close> or \<open>parsePodList\<close> in a fresh process has returned, a second call
  of the same function with the same filter (and, for pods, the same container-only
  setting) returns the rows that one call in a fresh process returns on the first input
  followed by the second input: the rows of the eligible entities of both inputs. It
  panics exactly when that one call does.
\<close>

theorem second_invocation_sees_first:
  "(parsePipelineRunList fileName1 visits1 prFilter no_maps = Inr (r1, m1, out1) \<longrightarrow>
      map_sum id fst (parsePipelineRunList fileName2 visits2 prFilter m1)
        = map_sum id fst (parsePipelineRunList fileName (visits1 @ visits2) prFilter no_maps))
   \<and> (parseTaskRunList fileName1 trVisits1 prFilter no_maps = Inr (r2, m2, out2) \<longrightarrow>
      map_sum id fst (parseTaskRunList fileName2 trVisits2 prFilter m2)
        = map_sum id fst (parseTaskRunList fileName (trVisits1 @ trVisits2) prFilter no_maps))
   \<and> (parsePodList fileName1 podVisits1 prFilter containerOnly (no_maps, no_maps)
        = Inr (r3, m3, out3) \<longrightarrow>
      map_sum id fst (parsePodList fileName2 podVisits2 prFilter containerOnly m3)
        = map_sum id fst (parsePodList fileName (podVisits1 @ podVisits2) prFilter containerOnly
            (no_maps, no_maps)))"
proof (intro conjI impI)
  assume first: "parsePipelineRunList fileName1 visits1 prFilter no_maps = Inr (r1, m1, out1)"
  let ?items1 = "concat (map (kept pr_Kind ''PipelineRun'') visits1)"
  let ?items2 = "concat (map (kept pr_Kind ''PipelineRun'') visits2)"
  from first obtain ma where ma: "prLoop ?items1 prFilter no_maps = Inr ma"
    and m1: "m1 = sortDurations ma"
    by (cases "prLoop ?items1 prFilter no_maps") (auto simp: parsePipelineRunList_eq)
  from coherent_no_maps ma have "coherent ma"
    by (rule prLoop_coherent)
  then have "map_sum id sortDurations (prLoop ?items2 prFilter m1)
      = map_sum id sortDurations (prLoop ?items2 prFilter ma)"
    unfolding m1 by (rule prLoop_after_sort)
  moreover have "prLoop (?items1 @ ?items2) prFilter no_maps = prLoop ?items2 prFilter ma"
    by (simp add: prLoop_append ma)
  ultimately show "map_sum id fst (parsePipelineRunList fileName2 visits2 prFilter m1)
        = map_sum id fst (parsePipelineRunList fileName (visits1 @ visits2) prFilter no_maps)"
    by (simp add: parsePipelineRunList_eq sum.map_comp comp_def)
next
  assume first: "parseTaskRunList fileName1 trVisits1 prFilter no_maps = Inr (r2, m2, out2)"
  let ?items1 = "concat (map (kept tr_Kind ''TaskRun'') trVisits1)"
  let ?items2 = "concat (map (kept tr_Kind ''TaskRun'') trVisits2)"
  from first obtain ma where ma: "trLoop ?items1 prFilter no_maps = Inr ma"
    and m2: "m2 = sortDurations ma"
    by (cases "trLoop ?items1 prFilter no_maps") (auto simp: parseTaskRunList_eq)
  from coherent_no_maps ma have "coherent ma"
    by (rule trLoop_coherent)
  then have "map_sum id sortDurations (trLoop ?items2 prFilter m2)
      = map_sum id sortDurations (trLoop ?items2 prFilter ma)"
    unfolding m2 by (rule trLoop_after_sort)
  moreover have "trLoop (?items1 @ ?items2) prFilter no_maps = trLoop ?items2 prFilter ma"
    by (simp add: trLoop_append ma)
  ultimately show "map_sum id fst (parseTaskRunList fileName2 trVisits2 prFilter m2)
        = map_sum id fst (parseTaskRunList fileName (trVisits1 @ trVisits2) prFilter no_maps)"
    by (simp add: parseTaskRunList_eq sum.map_comp comp_def)
next
  assume first: "parsePodList fileName1 podVisits1 prFilter containerOnly (no_maps, no_maps)
        = Inr (r3, m3, out3)"
  obtain pm cm where m3: "m3 = (pm, cm)" by (cases m3)
  show "map_sum id fst (parsePodList fileName2 podVisits2 prFilter containerOnly m3)
        = map_sum id fst (parsePodList fileName (podVisits1 @ podVisits2) prFilter containerOnly
            (no_maps, no_maps))"
  proof (cases containerOnly)
    case True
    with first m3 have "cm = sortDurations (recordWindows
                     (concat (map containerWindows (filter (\<lambda>p. \<not> ignorePod p prFilter)
                        (concat (map (kept pod_Kind ''Pod'') podVisits1))))) no_maps)"
      by (simp add: parsePodList_eq)
    with True m3 show ?thesis
      by (simp add: parsePodList_eq recordWindows_two_calls)
  next
    case False
    with first m3 have "pm = sortDurations (recordWindows
                     (map podWindow (filter (\<lambda>p. \<not> ignorePod p prFilter)
                        (concat (map (kept pod_Kind ''Pod'') podVisits1)))) no_maps)"
      by (simp add: parsePodList_eq)
    with False m3 show ?thesis
      by (simp add: parsePodList_eq recordWindows_two_calls)
  qed
qed

theorem second_invocation_sees_first_witness:
  "map_sum id fst
     (parsePipelineRunList ''b.json''
        [Document ''b.json''
           [\<lparr>pr_Kind = ''PipelineRun'',
             pr_Meta = \<lparr>Namespace = ''ci'', Name = ''run-2'', Labels = []\<rparr>,
             pr_Status = \<lparr>StartTime = Some 20000000000, CompletionTime = Some 50000000000,
                           Succeeded = Some ConditionFalse\<rparr>\<rparr>]]
        []
        \<lparr>startTimes = [(''ci:run-1'', 10000000000)], endTimes = [(''ci:run-1'', 70000000000)],
         toDuration = [(''ci:run-1'', 60)], durations = [60], durationsMap = {60}\<rparr>)
     = Inr (Rows [(''ci:run-2'', 30, 2), (''ci:run-1'', 60, 2)])
   \<and> map_sum id fst
     (parseTaskRunList ''b.json''
        [Document ''b.json''
           [\<lparr>tr_Kind = ''TaskRun'',
             tr_Meta = \<lparr>Namespace = ''ci'', Name = ''run-2-t'', Labels = []\<rparr>,
             tr_Status = \<lparr>StartTime = Some 20000000000, CompletionTime = Some 50000000000,
                           Succeeded = Some ConditionTrue\<rparr>\<rparr>]]
        []
        \<lparr>startTimes = [(''ci:run-1-t'', 10000000000)],
         endTimes = [(''ci:run-1-t'', 70000000000)],
         toDuration = [(''ci:run-1-t'', 60)], durations = [60], durationsMap = {60}\<rparr>)
     = Inr (Rows [(''ci:run-2-t'', 30, 2), (''ci:run-1-t'', 60, 2)])
   \<and> map_sum id fst
     (parsePodList ''b.json''
        [Document ''b.json''
           [\<lparr>pod_Kind = ''Pod'',
             pod_Meta = \<lparr>Namespace = ''ci'', Name = ''run-2-t-pod'',
                         Labels = [(''tekton.dev/pipelineRun'', ''run-2'')]\<rparr>,
             Containers = [\<lparr>c_Name = ''step''\<rparr>],
             pod_StartTime = Some 20000000000, Phase = PodSucceeded,
             ContainerStatuses =
               [\<lparr>cs_Name = ''step'',
                 Terminated = Some \<lparr>StartedAt = 20000000000, FinishedAt = 50000000000\<rparr>\<rparr>]\<rparr>]]
        [] False
        (\<lparr>startTimes = [(''ci:run-1-t-pod'', 10000000000)],
          endTimes = [(''ci:run-1-t-pod'', 70000000000)],
          toDuration = [(''ci:run-1-t-pod'', 60)], durations = [60], durationsMap = {60}\<rparr>,
         no_maps))
     = Inr (Rows [(''ci:run-2-t-pod'', 30, 2), (''ci:run-1-t-pod'', 60, 2)])"
proof -
  let ?v1 = "[Document ''a.json''
           [\<lparr>pr_Kind = ''PipelineRun'',
             pr_Meta = \<lparr>Namespace = ''ci'', Name = ''run-1'', Labels = []\<rparr>,
             pr_Status = \<lparr>StartTime = Some 10000000000, CompletionTime = Some 70000000000,
                           Succeeded = Some ConditionTrue\<rparr>\<rparr>]]"
  let ?v2 = "[Document ''b.json''
           [\<lparr>pr_Kind = ''PipelineRun'',
             pr_Meta = \<lparr>Namespace = ''ci'', Name = ''run-2'', Labels = []\<rparr>,
             pr_Status = \<lparr>StartTime = Some 20000000000, CompletionTime = Some 50000000000,
                           Succeeded = Some ConditionFalse\<rparr>\<rparr>]]"
  let ?m1 = "\<lparr>startTimes = [(''ci:run-1'', 10000000000)],
         endTimes = [(''ci:run-1'', 70000000000)],
         toDuration = [(''ci:run-1'', 60)], durations = [60], durationsMap = {60}\<rparr>"
  let ?t1 = "[Document ''a.json''
           [\<lparr>tr_Kind = ''TaskRun'',
             tr_Meta = \<lparr>Namespace = ''ci'', Name = ''run-1-t'', Labels = []\<rparr>,
             tr_Status = \<lparr>StartTime = Some 10000000000, CompletionTime = Some 70000000000,
                           Succeeded = Some ConditionTrue\<rparr>\<rparr>]]"
  let ?t2 = "[Document ''b.json''
           [\<lparr>tr_Kind = ''TaskRun'',
             tr_Meta = \<lparr>Namespace = ''ci'', Name = ''run-2-t'', Labels = []\<rparr>,
             tr_Status = \<lparr>StartTime = Some 20000000000, CompletionTime = Some 50000000000,
                           Succeeded = Some ConditionTrue\<rparr>\<rparr>]]"
  let ?m2 = "\<lparr>startTimes = [(''ci:run-1-t'', 10000000000)],
         endTimes = [(''ci:run-1-t'', 70000000000)],
         toDuration = [(''ci:run-1-t'', 60)], durations = [60], durationsMap = {60}\<rparr>"
  let ?p1 = "[Document ''a.json''
           [\<lparr>pod_Kind = ''Pod'',
             pod_Meta = \<lparr>Namespace = ''ci'', Name = ''run-1-t-pod'',
                         Labels = [(''tekton.dev/pipelineRun'', ''run-1'')]\<rparr>,
             Containers = [\<lparr>c_Name = ''step''\<rparr>],
             pod_StartTime = Some 10000000000, Phase = PodSucceeded,
             ContainerStatuses =
               [\<lparr>cs_Name = ''step'',
                 Terminated = Some \<lparr>StartedAt = 10000000000, FinishedAt = 70000000000\<rparr>\<rparr>]\<rparr>]]"
  let ?p2 = "[Document ''b.json''
           [\<lparr>pod_Kind = ''Pod'',
             pod_Meta = \<lparr>Namespace = ''ci'', Name = ''run-2-t-pod'',
                         Labels = [(''tekton.dev/pipelineRun'', ''run-2'')]\<rparr>,
             Containers = [\<lparr>c_Name = ''step''\<rparr>],
             pod_StartTime = Some 20000000000, Phase = PodSucceeded,
             ContainerStatuses =
               [\<lparr>cs_Name = ''step'',
                 Terminated = Some \<lparr>StartedAt = 20000000000, FinishedAt = 50000000000\<rparr>\<rparr>]\<rparr>]]"
  let ?m3 = "\<lparr>startTimes = [(''ci:run-1-t-pod'', 10000000000)],
          endTimes = [(''ci:run-1-t-pod'', 70000000000)],
          toDuration = [(''ci:run-1-t-pod'', 60)], durations = [60], durationsMap = {60}\<rparr>"
  note ev = kept_def printed_def ignorePipelineRun_def ignoreTaskRun_def ignorePod_def
    HasStarted_def IsDone_def HasPrefix_def zeroTime_def processPipelineRun_def
    processTaskRun_def podWindow_def recordWindow_def Let_def prKeyOf_def trKeyOf_def
    podKeyOf_def objKey_def Seconds_def Sub_def minDuration_def maxDuration_def
    sortDurations_def rankRows_def rankGroup_def innerConcurrency_def lookupTime_def
    no_maps_def Before_def After_def
  have first1: "parsePipelineRunList ''a.json'' ?v1 [] no_maps
      = Inr (Rows [(''ci:run-1'', 60, 1)], ?m1, [])"
    by (simp add: parsePipelineRunList_eq ev)
  have both1: "map_sum id fst (parsePipelineRunList ''b.json'' (?v1 @ ?v2) [] no_maps)
      = Inr (Rows [(''ci:run-2'', 30, 2), (''ci:run-1'', 60, 2)])"
    by (simp add: parsePipelineRunList_eq ev)
  have first2: "parseTaskRunList ''a.json'' ?t1 [] no_maps
      = Inr (Rows [(''ci:run-1-t'', 60, 1)], ?m2, [])"
    by (simp add: parseTaskRunList_eq ev)
  have both2: "map_sum id fst (parseTaskRunList ''b.json'' (?t1 @ ?t2) [] no_maps)
      = Inr (Rows [(''ci:run-2-t'', 30, 2), (''ci:run-1-t'', 60, 2)])"
    by (simp add: parseTaskRunList_eq ev)
  have first3: "parsePodList ''a.json'' ?p1 [] False (no_maps, no_maps)
      = Inr (Rows [(''ci:run-1-t-pod'', 60, 1)], (?m3, no_maps), [])"
    by (simp add: parsePodList_eq ev)
  have both3: "map_sum id fst (parsePodList ''b.json'' (?p1 @ ?p2) [] False (no_maps, no_maps))
      = Inr (Rows [(''ci:run-2-t-pod'', 30, 2), (''ci:run-1-t-pod'', 60, 2)])"
    by (simp add: parsePodList_eq ev)
  note t = second_invocation_sees_first
    [where ?visits1.0 = ?v1 and ?visits2.0 = ?v2 and ?fileName1.0 = "''a.json''"
       and ?fileName2.0 = "''b.json''" and fileName = "''b.json''" and prFilter = "[]"
       and ?r1.0 = "Rows [(''ci:run-1'', 60, 1)]" and ?m1.0 = ?m1 and ?out1.0 = "[]"
       and ?trVisits1.0 = ?t1 and ?trVisits2.0 = ?t2
       and ?r2.0 = "Rows [(''ci:run-1-t'', 60, 1)]" and ?m2.0 = ?m2 and ?out2.0 = "[]"
       and ?podVisits1.0 = ?p1 and ?podVisits2.0 = ?p2 and containerOnly = False
       and ?r3.0 = "Rows [(''ci:run-1-t-pod'', 60, 1)]" and ?m3.0 = "(?m3, no_maps)"
       and ?out3.0 = "[]"]
  note a = t [THEN conjunct1, THEN mp]
  note b = t [THEN conjunct2, THEN conjunct1, THEN mp]
  note c = t [THEN conjunct2, THEN conjunct2, THEN mp]
  from trans [OF a [OF first1] both1] trans [OF b [OF first2] both2]
    trans [OF c [OF first3] both3]
  show ?thesis
    by (intro conjI)
qed

subsection \<open>Failed reads in each revision\<close>

lemma parse_never_fails_to_read:
  "parsePipelineRunList fileName visits prFilter m \<noteq> Inr (ReadFailure msg, m', out)"
  "parseTaskRunList fileName trVisits prFilter m \<noteq> Inr (ReadFailure msg, m', out)"
  "parsePodList fileName podVisits prFilter containerOnly maps \<noteq> Inr (ReadFailure msg, maps', out)"
proof -
  show "parsePipelineRunList fileName visits prFilter m \<noteq> Inr (ReadFailure msg, m', out)"
    by (cases "prLoop (concat (map (kept pr_Kind ''PipelineRun'') visits)) prFilter m")
      (simp_all add: parsePipelineRunList_eq)
  show "parseTaskRunList fileName trVisits prFilter m \<noteq> Inr (ReadFailure msg, m', out)"
    by (cases "trLoop (concat (map (kept tr_Kind ''TaskRun'') trVisits)) prFilter m")
      (simp_all add: parseTaskRunList_eq)
  obtain pm cm where "maps = (pm, cm)" by (cases maps)
  then show "parsePodList fileName podVisits prFilter containerOnly maps
      \<noteq> Inr (ReadFailure msg, maps', out)"
    by (simp add: parsePodList_eq)
qed

lemma parse_documents_alone:
  "map_sum id fst (parsePipelineRunList fileName visits prFilter m)
     = map_sum id fst (parsePipelineRunList fileName
         (filter (\<lambda>v. case v of Document path l \<Rightarrow> True | _ \<Rightarrow> False) visits) prFilter m)"
  "map_sum id fst (parseTaskRunList fileName trVisits prFilter m)
     = map_sum id fst (parseTaskRunList fileName
         (filter (\<lambda>v. case v of Document path l \<Rightarrow> True | _ \<Rightarrow> False) trVisits) prFilter m)"
  "map_sum id fst (parsePodList fileName podVisits prFilter containerOnly maps)
     = map_sum id fst (parsePodList fileName
         (filter (\<lambda>v. case v of Document path l \<Rightarrow> True | _ \<Rightarrow> False) podVisits) prFilter
         containerOnly maps)"
proof -
  show "map_sum id fst (parsePipelineRunList fileName visits prFilter m)
     = map_sum id fst (parsePipelineRunList fileName
         (filter (\<lambda>v. case v of Document path l \<Rightarrow> True | _ \<Rightarrow> False) visits) prFilter m)"
    by (cases "prLoop (concat (map (kept pr_Kind ''PipelineRun'') visits)) prFilter m")
      (simp_all add: parsePipelineRunList_eq kept_only_documents)
  show "map_sum id fst (parseTaskRunList fileName trVisits prFilter m)
     = map_sum id fst (parseTaskRunList fileName
         (filter (\<lambda>v. case v of Document path l \<Rightarrow> True | _ \<Rightarrow> False) trVisits) prFilter m)"
    by (cases "trLoop (concat (map (kept tr_Kind ''TaskRun'') trVisits)) prFilter m")
      (simp_all add: parseTaskRunList_eq kept_only_documents)
  obtain pm cm where "maps = (pm, cm)" by (cases maps)
  then show "map_sum id fst (parsePodList fileName podVisits prFilter containerOnly maps)
     = map_sum id fst (parsePodList fileName
         (filter (\<lambda>v. case v of Document path l \<Rightarrow> True | _ \<Rightarrow> False) podVisits) prFilter
         containerOnly maps)"
    by (simp add: parsePodList_eq kept_only_documents)
qed

lemma parse_returns_rows:
  "(\<forall>pr\<in>set (fst (processPRFiles visits)).
      \<not> ignorePipelineRun pr prFilter \<longrightarrow> CompletionTime (pr_Status pr) \<noteq> None) \<longrightarrow>
   (\<exists>rows m2. parsePipelineRunList fileName visits prFilter m
      = Inr (Rows rows, m2, concat (map printed visits)))"
  "(\<forall>tr\<in>set (fst (processTRFiles trVisits)).
      \<not> ignoreTaskRun tr prFilter \<longrightarrow> CompletionTime (tr_Status tr) \<noteq> None) \<longrightarrow>
   (\<exists>rows m2. parseTaskRunList fileName trVisits prFilter m
      = Inr (Rows rows, m2, concat (map printed trVisits)))"
  "\<exists>rows maps2. parsePodList fileName podVisits prFilter containerOnly maps
      = Inr (Rows rows, maps2, concat (map printed podVisits))"
proof -
  show "(\<forall>pr\<in>set (fst (processPRFiles visits)).
      \<not> ignorePipelineRun pr prFilter \<longrightarrow> CompletionTime (pr_Status pr) \<noteq> None) \<longrightarrow>
   (\<exists>rows m2. parsePipelineRunList fileName visits prFilter m
      = Inr (Rows rows, m2, concat (map printed visits)))"
    by (simp add: processPRFiles_eq parsePipelineRunList_eq prLoop_records)
  show "(\<forall>tr\<in>set (fst (processTRFiles trVisits)).
      \<not> ignoreTaskRun tr prFilter \<longrightarrow> CompletionTime (tr_Status tr) \<noteq> None) \<longrightarrow>
   (\<exists>rows m2. parseTaskRunList fileName trVisits prFilter m
      = Inr (Rows rows, m2, concat (map printed trVisits)))"
    by (simp add: processTRFiles_eq parseTaskRunList_eq trLoop_records)
  obtain pm cm where "maps = (pm, cm)" by (cases maps)
  then show "\<exists>rows maps2. parsePodList fileName podVisits prFilter containerOnly maps
      = Inr (Rows rows, maps2, concat (map printed podVisits))"
    by (simp add: parsePodList_eq)
qed

lemma all_stat_fails:
  "args \<noteq> [] \<and> Stat fs (args ! 0) = Inl err \<longrightarrow>
   ParseAllThreeLists fs args g
     = Inr ([''ERROR: could not analyze file '' @ args ! 0 @ '': '' @ err @ [CHR 0x0A]], [], g)"
  by (cases args) (simp_all add: ParseAllThreeLists_def)

lemma all_prints_lines:
  "args \<noteq> [] \<and> Stat fs (args ! 0) = Inr isDir \<and> (isDir \<or> 3 \<le> length args)
   \<and> trFileName = (if isDir then args ! 0 else args ! 1)
   \<and> podFileName = (if isDir then args ! 0 else args ! 2)
   \<and> parsePipelineRunList (args ! 0) (prFiles fs (args ! 0)) [] (prMaps g)
       = Inr (Rows rows1, m1, out1)
   \<and> parseTaskRunList trFileName (trFiles fs trFileName) [] (trMaps g)
       = Inr (Rows rows2, m2, out2)
   \<and> parsePodList podFileName (podFiles fs podFileName) [] False (podMaps g, containerMaps g)
       = Inr (Rows rows3, (pm, cm), out3) \<longrightarrow>
   ParseAllThreeLists fs args g
     = Inr (out1 @ out2 @ out3, aggregateLines rows1 rows2 rows3,
            g\<lparr>prMaps := m1, trMaps := m2, podMaps := pm, containerMaps := cm\<rparr>)
   \<and> map l_key (aggregateLines rows1 rows2 rows3) = map fst rows1"
proof (intro impI, elim conjE)
  assume a: "args \<noteq> []" "Stat fs (args ! 0) = Inr isDir" "isDir \<or> 3 \<le> length args"
    "trFileName = (if isDir then args ! 0 else args ! 1)"
    "podFileName = (if isDir then args ! 0 else args ! 2)"
    and p: "parsePipelineRunList (args ! 0) (prFiles fs (args ! 0)) [] (prMaps g)
       = Inr (Rows rows1, m1, out1)"
    "parseTaskRunList trFileName (trFiles fs trFileName) [] (trMaps g)
       = Inr (Rows rows2, m2, out2)"
    "parsePodList podFileName (podFiles fs podFileName) [] False (podMaps g, containerMaps g)
       = Inr (Rows rows3, (pm, cm), out3)"
  from a(1) have len: "\<not> length args < 1"
    by (cases args) simp_all
  have run: "ParseAllThreeLists fs args g
     = Inr (out1 @ out2 @ out3, aggregateLines rows1 rows2 rows3,
            g\<lparr>prMaps := m1, trMaps := m2, podMaps := pm, containerMaps := cm\<rparr>)"
  proof (cases isDir)
    case True
    with a p len show ?thesis
      by (simp add: ParseAllThreeLists_def Let_def)
  next
    case False
    with a(3) have "\<not> length args < 3" by simp
    with False a p len show ?thesis
      by (simp add: ParseAllThreeLists_def Let_def)
  qed
  have keys: "map l_key (aggregateLines rows1 rows2 rows3) = map fst rows1"
    by (induction rows1)
      (auto simp: aggregateLines_def aggregateLine_def split: prod.splits)
  from run keys show "ParseAllThreeLists fs args g
     = Inr (out1 @ out2 @ out3, aggregateLines rows1 rows2 rows3,
            g\<lparr>prMaps := m1, trMaps := m2, podMaps := pm, containerMaps := cm\<rparr>)
   \<and> map l_key (aggregateLines rows1 rows2 rows3) = map fst rows1"
    by (rule conjI)
qed

lemma read_fails_1:
  "parsePipelineRunList1 fileName (ReadFails err) prFilter m
     = Inr (ReadFailure (''ERROR: problem reading file '' @ fileName @ '': '' @ err
              @ [CHR 0x0A]), m)"
  "parseTaskRunList1 fileName (ReadFails err) prFilter m
     = Inr (ReadFailure (''ERROR: problem reading file '' @ fileName @ '': '' @ err
              @ [CHR 0x0A]), m)"
  "parsePodList1 fileName (ReadFails err) prFilter m
     = Inr (ReadFailure (''ERROR: problem reading file '' @ fileName @ '': '' @ err
              @ [CHR 0x0A]), m)"
  by (simp_all add: parsePipelineRunList1_def parseTaskRunList1_def parsePodList1_def)

lemma all_1_aborts:
  "(3 \<le> length args \<and> prFile fs1 (args ! 0) = ReadFails err \<longrightarrow>
      ParseAllThreeLists1 fs1 args g
        = Inr ([''ERROR: problem reading file '' @ args ! 0 @ '': '' @ err @ [CHR 0x0A]], [], g))"
  "(3 \<le> length args
      \<and> parsePipelineRunList1 (args ! 0) (prFile fs1 (args ! 0)) [] (prMaps g) = Inr (Rows rows1, m1)
      \<and> trFile fs1 (args ! 1) = ReadFails err \<longrightarrow>
      ParseAllThreeLists1 fs1 args g
        = Inr ([''ERROR: problem reading file '' @ args ! 1 @ '': '' @ err @ [CHR 0x0A]], [],
               g\<lparr>prMaps := m1\<rparr>))"
  "(3 \<le> length args
      \<and> parsePipelineRunList1 (args ! 0) (prFile fs1 (args ! 0)) [] (prMaps g) = Inr (Rows rows1, m1)
      \<and> parseTaskRunList1 (args ! 1) (trFile fs1 (args ! 1)) [] (trMaps g) = Inr (Rows rows2, m2)
      \<and> podFile fs1 (args ! 2) = ReadFails err \<longrightarrow>
      ParseAllThreeLists1 fs1 args g
        = Inr ([''ERROR: problem reading file '' @ args ! 2 @ '': '' @ err @ [CHR 0x0A]], [],
               g\<lparr>prMaps := m1, trMaps := m2\<rparr>))"
  by (simp_all add: ParseAllThreeLists1_def Let_def read_fails_1)

text \<open>
  C2, amended. Whether a failed read aborts depends on the revision. In the revision that
  walks directory trees, a path that cannot be walked or read inside
  \<open>parsePipelineRunList\<close>, \<open>parseTaskRunList\<close> or \<open>parsePodList\<close> does not abort: the
  failure is printed on standard error (the unreadable file with its path, the walk error
  with its text), the path is skipped, the function never returns its failure message,
  and it returns what it returns on the documents alone, with one message for each failed
  path. The command for all three lists of that revision aborts, with a message naming
  the path and no line, when \<open>os.Stat\<close> of its first argument fails; when that succeeds,
  the arguments suffice and the three functions return rows, it prints the messages of
  the three walks and one line per pipeline-run row. In the revision just before, whose
  \<open>parsePipelineRunList\<close>, \<open>parseTaskRunList\<close> and \<open>parsePodList\<close> read a single file
  with \<open>os.ReadFile\<close>, the claim holds as stated: a failed read makes the function return
  only the message naming the file, with the maps untouched, and the command for all
  three lists built on these functions prints that message and no line.
\<close>

theorem failed_reads_by_revision:
  "parsePipelineRunList fileName visits prFilter m \<noteq> Inr (ReadFailure msg, m', out)
   \<and> parseTaskRunList fileName trVisits prFilter m \<noteq> Inr (ReadFailure msg, m', out)
   \<and> parsePodList fileName podVisits prFilter containerOnly maps
       \<noteq> Inr (ReadFailure msg, maps', out)
   \<and> printed (Unreadable path e :: 'a visit)
       = [''problem reading '' @ path @ '': '' @ e @ [CHR 0x0A]]
   \<and> printed (WalkError path e :: 'a visit)
       = [''filepath walk error: '' @ e @ [CHR 0x0A]]
   \<and> printed (Directory path :: 'a visit) = []
   \<and> printed (Undecodable path :: 'a visit) = []
   \<and> printed (Document path (l :: 'a list)) = []
   \<and> map_sum id fst (parsePipelineRunList fileName visits prFilter m)
       = map_sum id fst (parsePipelineRunList fileName
           (filter (\<lambda>v. case v of Document path l \<Rightarrow> True | _ \<Rightarrow> False) visits) prFilter m)
   \<and> map_sum id fst (parseTaskRunList fileName trVisits prFilter m)
       = map_sum id fst (parseTaskRunList fileName
           (filter (\<lambda>v. case v of Document path l \<Rightarrow> True | _ \<Rightarrow> False) trVisits) prFilter m)
   \<and> map_sum id fst (parsePodList fileName podVisits prFilter containerOnly maps)
       = map_sum id fst (parsePodList fileName
           (filter (\<lambda>v. case v of Document path l \<Rightarrow> True | _ \<Rightarrow> False) podVisits) prFilter
           containerOnly maps)
   \<and> ((\<forall>pr\<in>set (fst (processPRFiles visits)).
          \<not> ignorePipelineRun pr prFilter \<longrightarrow> CompletionTime (pr_Status pr) \<noteq> None) \<longrightarrow>
        (\<exists>rows m2. parsePipelineRunList fileName visits prFilter m
           = Inr (Rows rows, m2, concat (map printed visits))))
   \<and> ((\<forall>tr\<in>set (fst (processTRFiles trVisits)).
          \<not> ignoreTaskRun tr prFilter \<longrightarrow> CompletionTime (tr_Status tr) \<noteq> None) \<longrightarrow>
        (\<exists>rows m2. parseTaskRunList fileName trVisits prFilter m
           = Inr (Rows rows, m2, concat (map printed trVisits))))
   \<and> (\<exists>rows maps2. parsePodList fileName podVisits prFilter containerOnly maps
           = Inr (Rows rows, maps2, concat (map printed podVisits)))
   \<and> (args \<noteq> [] \<and> Stat fs (args ! 0) = Inl err \<longrightarrow>
        ParseAllThreeLists fs args g
          = Inr ([''ERROR: could not analyze file '' @ args ! 0 @ '': '' @ err @ [CHR 0x0A]],
                 [], g))
   \<and> (args \<noteq> [] \<and> Stat fs (args ! 0) = Inr isDir \<and> (isDir \<or> 3 \<le> length args)
        \<and> trFileName = (if isDir then args ! 0 else args ! 1)
        \<and> podFileName = (if isDir then args ! 0 else args ! 2)
        \<and> parsePipelineRunList (args ! 0) (prFiles fs (args ! 0)) [] (prMaps g)
            = Inr (Rows rows1, m1, out1)
        \<and> parseTaskRunList trFileName (trFiles fs trFileName) [] (trMaps g)
            = Inr (Rows rows2, m2, out2)
        \<and> parsePodList podFileName (podFiles fs podFileName) [] False
              (podMaps g, containerMaps g)
            = Inr (Rows rows3, (pm, cm), out3) \<longrightarrow>
        ParseAllThreeLists fs args g
          = Inr (out1 @ out2 @ out3, aggregateLines rows1 rows2 rows3,
                 g\<lparr>prMaps := m1, trMaps := m2, podMaps := pm, containerMaps := cm\<rparr>)
        \<and> map l_key (aggregateLines rows1 rows2 rows3) = map fst rows1)
   \<and> parsePipelineRunList1 fileName (ReadFails err) prFilter m
       = Inr (ReadFailure (''ERROR: problem reading file '' @ fileName @ '': '' @ err
                @ [CHR 0x0A]), m)
   \<and> parseTaskRunList1 fileName (ReadFails err) prFilter m
       = Inr (ReadFailure (''ERROR: problem reading file '' @ fileName @ '': '' @ err
                @ [CHR 0x0A]), m)
   \<and> parsePodList1 fileName (ReadFails err) prFilter m
       = Inr (ReadFailure (''ERROR: problem reading file '' @ fileName @ '': '' @ err
                @ [CHR 0x0A]), m)
   \<and> (3 \<le> length args \<and> prFile fs1 (args ! 0) = ReadFails err \<longrightarrow>
        ParseAllThreeLists1 fs1 args g
          = Inr ([''ERROR: problem reading file '' @ args ! 0 @ '': '' @ err @ [CHR 0x0A]],
                 [], g))
   \<and> (3 \<le> length args
        \<and> parsePipelineRunList1 (args ! 0) (prFile fs1 (args ! 0)) [] (prMaps g)
            = Inr (Rows rows1, m1)
        \<and> trFile fs1 (args ! 1) = ReadFails err \<longrightarrow>
        ParseAllThreeLists1 fs1 args g
          = Inr ([''ERROR: problem reading file '' @ args ! 1 @ '': '' @ err @ [CHR 0x0A]],
                 [], g\<lparr>prMaps := m1\<rparr>))
   \<and> (3 \<le> length args
        \<and> parsePipelineRunList1 (args ! 0) (prFile fs1 (args ! 0)) [] (prMaps g)
            = Inr (Rows rows1, m1)
        \<and> parseTaskRunList1 (args ! 1) (trFile fs1 (args ! 1)) [] (trMaps g)
            = Inr (Rows rows2, m2)
        \<and> podFile fs1 (args ! 2) = ReadFails err \<longrightarrow>
        ParseAllThreeLists1 fs1 args g
          = Inr ([''ERROR: problem reading file '' @ args ! 2 @ '': '' @ err @ [CHR 0x0A]],
                 [], g\<lparr>prMaps := m1, trMaps := m2\<rparr>))"
  by (intro conjI parse_never_fails_to_read parse_documents_alone parse_returns_rows
      all_stat_fails all_prints_lines read_fails_1 all_1_aborts)
    (simp_all add: printed_def)

theorem failed_reads_by_revision_witness:
  "ParseAllThreeLists
     \<lparr>Stat = (\<lambda>p. if p = ''dir'' then Inr True
                   else Inl (''stat '' @ p @ '': no such file or directory'')),
      prFiles = (\<lambda>p. [Unreadable ''dir/b.json'' ''permission denied'',
                       Document ''dir/a.json''
                         [\<lparr>pr_Kind = ''PipelineRun'',
                           pr_Meta = \<lparr>Namespace = ''ci'', Name = ''run-1'', Labels = []\<rparr>,
                           pr_Status = \<lparr>StartTime = Some 10000000000,
                                         CompletionTime = Some 70000000000,
                                         Succeeded = Some ConditionTrue\<rparr>\<rparr>]]),
      trFiles = (\<lambda>p. []), podFiles = (\<lambda>p. [])\<rparr>
     [''gone'']
     \<lparr>prMaps = no_maps, trMaps = no_maps, podMaps = no_maps, containerMaps = no_maps\<rparr>
   = Inr ([''ERROR: could not analyze file gone: stat gone: no such file or directory''
             @ [CHR 0x0A]], [],
          \<lparr>prMaps = no_maps, trMaps = no_maps, podMaps = no_maps, containerMaps = no_maps\<rparr>)
   \<and> (\<exists>g'. ParseAllThreeLists
     \<lparr>Stat = (\<lambda>p. if p = ''dir'' then Inr True
                   else Inl (''stat '' @ p @ '': no such file or directory'')),
      prFiles = (\<lambda>p. [Unreadable ''dir/b.json'' ''permission denied'',
                       Document ''dir/a.json''
                         [\<lparr>pr_Kind = ''PipelineRun'',
                           pr_Meta = \<lparr>Namespace = ''ci'', Name = ''run-1'', Labels = []\<rparr>,
                           pr_Status = \<lparr>StartTime = Some 10000000000,
                                         CompletionTime = Some 70000000000,
                                         Succeeded = Some ConditionTrue\<rparr>\<rparr>]]),
      trFiles = (\<lambda>p. []), podFiles = (\<lambda>p. [])\<rparr>
     [''dir'']
     \<lparr>prMaps = no_maps, trMaps = no_maps, podMaps = no_maps, containerMaps = no_maps\<rparr>
   = Inr ([''problem reading dir/b.json: permission denied'' @ [CHR 0x0A]],
          aggregateLines [(''ci:run-1'', 60, 1)] [] [], g'))
   \<and> (\<exists>rows m2. parseTaskRunList ''dir'' [Undecodable ''dir/a.json''] [] no_maps
          = Inr (Rows rows, m2, []))
   \<and> ParseAllThreeLists1
     \<lparr>prFile = (\<lambda>p. Unmarshalled []), trFile = (\<lambda>p. Unmarshalled []),
      podFile = (\<lambda>p. ReadFails (''open '' @ p @ '': no such file or directory''))\<rparr>
     [''prs.json'', ''trs.json'', ''pods.json'']
     \<lparr>prMaps = no_maps, trMaps = no_maps, podMaps = no_maps, containerMaps = no_maps\<rparr>
   = Inr ([''ERROR: problem reading file pods.json: open pods.json: no such file or directory''
             @ [CHR 0x0A]], [],
          \<lparr>prMaps = no_maps, trMaps = no_maps, podMaps = no_maps, containerMaps = no_maps\<rparr>)
   \<and> ParseAllThreeLists1
     \<lparr>prFile = (\<lambda>p. Unmarshalled []),
      trFile = (\<lambda>p. ReadFails (''open '' @ p @ '': no such file or directory'')),
      podFile = (\<lambda>p. Unmarshalled [])\<rparr>
     [''prs.json'', ''trs.json'', ''pods.json'']
     \<lparr>prMaps = no_maps, trMaps = no_maps, podMaps = no_maps, containerMaps = no_maps\<rparr>
   = Inr ([''ERROR: problem reading file trs.json: open trs.json: no such file or directory''
             @ [CHR 0x0A]], [],
          \<lparr>prMaps = no_maps, trMaps = no_maps, podMaps = no_maps, containerMaps = no_maps\<rparr>)
   \<and> ParseAllThreeLists1
     \<lparr>prFile = (\<lambda>p. ReadFails (''open '' @ p @ '': no such file or directory'')),
      trFile = (\<lambda>p. Unmarshalled []), podFile = (\<lambda>p. Unmarshalled [])\<rparr>
     [''prs.json'', ''trs.json'', ''pods.json'']
     \<lparr>prMaps = no_maps, trMaps = no_maps, podMaps = no_maps, containerMaps = no_maps\<rparr>
   = Inr ([''ERROR: problem reading file prs.json: open prs.json: no such file or directory''
             @ [CHR 0x0A]], [],
          \<lparr>prMaps = no_maps, trMaps = no_maps, podMaps = no_maps, containerMaps = no_maps\<rparr>)"
proof -
  let ?vs = "[Unreadable ''dir/b.json'' ''permission denied'',
                       Document ''dir/a.json''
                         [\<lparr>pr_Kind = ''PipelineRun'',
                           pr_Meta = \<lparr>Namespace = ''ci'', Name = ''run-1'', Labels = []\<rparr>,
                           pr_Status = \<lparr>StartTime = Some 10000000000,
                                         CompletionTime = Some 70000000000,
                                         Succeeded = Some ConditionTrue\<rparr>\<rparr>]]"
  let ?fs = "\<lparr>Stat = (\<lambda>p. if p = ''dir'' then Inr True
                   else Inl (''stat '' @ p @ '': no such file or directory'')),
      prFiles = (\<lambda>p. ?vs), trFiles = (\<lambda>p. []), podFiles = (\<lambda>p. [])\<rparr>"
  let ?g = "\<lparr>prMaps = no_maps, trMaps = no_maps, podMaps = no_maps, containerMaps = no_maps\<rparr>"
  let ?m1 = "\<lparr>startTimes = [(''ci:run-1'', 10000000000)],
           endTimes = [(''ci:run-1'', 70000000000)],
           toDuration = [(''ci:run-1'', 60)], durations = [60], durationsMap = {60}\<rparr>"
  let ?missing = "\<lambda>p. ReadFails (''open '' @ p @ '': no such file or directory'')"
  let ?args = "[''prs.json'', ''trs.json'', ''pods.json'']"
  note ev = kept_def printed_def ignorePipelineRun_def HasStarted_def IsDone_def zeroTime_def
    processPipelineRun_def recordWindow_def Let_def prKeyOf_def objKey_def Seconds_def Sub_def
    minDuration_def maxDuration_def sortDurations_def rankRows_def rankGroup_def
    innerConcurrency_def lookupTime_def no_maps_def
  have 1: "ParseAllThreeLists ?fs [''gone''] ?g
      = Inr ([''ERROR: could not analyze file gone: stat gone: no such file or directory''
                @ [CHR 0x0A]], [], ?g)"
    using failed_reads_by_revision [where ?'a = PipelineRun and args = "[''gone'']" and fs = ?fs and g = ?g
        and err = "''stat gone: no such file or directory''"]
    by simp
  have pr: "parsePipelineRunList ''dir'' ?vs [] no_maps
      = Inr (Rows [(''ci:run-1'', 60, 1)], ?m1,
             [''problem reading dir/b.json: permission denied'' @ [CHR 0x0A]])"
    by (simp add: parsePipelineRunList_eq ev)
  have tr: "parseTaskRunList ''dir'' [] [] no_maps = Inr (Rows [], no_maps, [])"
    by (simp add: parseTaskRunList_eq ev)
  have pod: "parsePodList ''dir'' [] [] False (no_maps, no_maps)
      = Inr (Rows [], (no_maps, no_maps), [])"
    by (simp add: parsePodList_eq ev)
  have 2: "\<exists>g'. ParseAllThreeLists ?fs [''dir''] ?g
      = Inr ([''problem reading dir/b.json: permission denied'' @ [CHR 0x0A]],
             aggregateLines [(''ci:run-1'', 60, 1)] [] [], g')"
    using failed_reads_by_revision [where ?'a = PipelineRun and args = "[''dir'']" and fs = ?fs and g = ?g
        and isDir = True and trFileName = "''dir''" and podFileName = "''dir''"
        and ?rows1.0 = "[(''ci:run-1'', 60, 1)]" and ?m1.0 = ?m1
        and ?out1.0 = "[''problem reading dir/b.json: permission denied'' @ [CHR 0x0A]]"
        and ?rows2.0 = "[]" and ?m2.0 = no_maps and ?out2.0 = "[]"
        and ?rows3.0 = "[]" and pm = no_maps and cm = no_maps and ?out3.0 = "[]"]
      pr tr pod
    by simp
  have 3: "\<exists>rows m2. parseTaskRunList ''dir'' [Undecodable ''dir/a.json''] [] no_maps
          = Inr (Rows rows, m2, [])"
    using failed_reads_by_revision [where ?'a = PipelineRun and trVisits = "[Undecodable ''dir/a.json'']"
        and fileName = "''dir''" and prFilter = "[]" and m = no_maps]
    by (simp add: processTRFiles_eq kept_def printed_def)
  have e: "parsePipelineRunList1 ''prs.json'' (Unmarshalled []) [] no_maps = Inr (Rows [], no_maps)"
    "parseTaskRunList1 ''trs.json'' (Unmarshalled []) [] no_maps = Inr (Rows [], no_maps)"
    by (simp_all add: parsePipelineRunList1_def parseTaskRunList1_def ev)
  have 4: "ParseAllThreeLists1
      \<lparr>prFile = (\<lambda>p. Unmarshalled []), trFile = (\<lambda>p. Unmarshalled []), podFile = ?missing\<rparr>
      ?args ?g
      = Inr ([''ERROR: problem reading file pods.json: open pods.json: no such file or directory''
                @ [CHR 0x0A]], [], ?g)"
    using failed_reads_by_revision [where ?'a = PipelineRun and args = ?args and g = ?g
        and ?fs1.0 = "\<lparr>prFile = (\<lambda>p. Unmarshalled []), trFile = (\<lambda>p. Unmarshalled []),
                       podFile = ?missing\<rparr>"
        and err = "''open pods.json: no such file or directory''"
        and ?rows1.0 = "[]" and ?m1.0 = no_maps and ?rows2.0 = "[]" and ?m2.0 = no_maps] e
    by simp
  have 5: "ParseAllThreeLists1
      \<lparr>prFile = (\<lambda>p. Unmarshalled []), trFile = ?missing, podFile = (\<lambda>p. Unmarshalled [])\<rparr>
      ?args ?g
      = Inr ([''ERROR: problem reading file trs.json: open trs.json: no such file or directory''
                @ [CHR 0x0A]], [], ?g)"
    using failed_reads_by_revision [where ?'a = PipelineRun and args = ?args and g = ?g
        and ?fs1.0 = "\<lparr>prFile = (\<lambda>p. Unmarshalled []), trFile = ?missing,
                       podFile = (\<lambda>p. Unmarshalled [])\<rparr>"
        and err = "''open trs.json: no such file or directory''"
        and ?rows1.0 = "[]" and ?m1.0 = no_maps] e
    by simp
  have 6: "ParseAllThreeLists1
      \<lparr>prFile = ?missing, trFile = (\<lambda>p. Unmarshalled []), podFile = (\<lambda>p. Unmarshalled [])\<rparr>
      ?args ?g
      = Inr ([''ERROR: problem reading file prs.json: open prs.json: no such file or directory''
                @ [CHR 0x0A]], [], ?g)"
    using failed_reads_by_revision [where ?'a = PipelineRun and args = ?args and g = ?g
        and ?fs1.0 = "\<lparr>prFile = ?missing, trFile = (\<lambda>p. Unmarshalled []),
                       podFile = (\<lambda>p. Unmarshalled [])\<rparr>"
        and err = "''open prs.json: no such file or directory''"]
    by simp
  from 1 2 3 4 5 6 show ?thesis
    by (intro conjI)
qed

subsection \<open>The pod loop of the revision with local maps\<close>

text \<open>
  C3 fails in \<open>src/main.go\<close>. The pod started at 1 s; its first declared container
  finished at 21 s, its second at 13 s. The pod-list command reports 12 seconds, the
  finish of the last declared status, and so does the pod total of the command for all
  three lists; the latest finish gives 20 seconds, which is what \<open>processPod\<close> of the
  later revisions stores.
\<close>

theorem last_declared_status_wins:
  "ParsePodList0
     [\<lparr>pod_Kind = ''Pod'',
       pod_Meta = \<lparr>Namespace = ''ci'', Name = ''run-1-build-pod'',
                   Labels = [(''tekton.dev/pipelineRun'', ''run-1'')]\<rparr>,
       Containers = [\<lparr>c_Name = ''step-a''\<rparr>, \<lparr>c_Name = ''step-b''\<rparr>],
       pod_StartTime = Some 1000000000, Phase = PodSucceeded,
       ContainerStatuses =
         [\<lparr>cs_Name = ''step-b'',
           Terminated = Some \<lparr>StartedAt = 2000000000, FinishedAt = 21000000000\<rparr>\<rparr>,
          \<lparr>cs_Name = ''step-a'',
           Terminated = Some \<lparr>StartedAt = 2000000000, FinishedAt = 13000000000\<rparr>\<rparr>]\<rparr>]
     = [(''ci:run-1-build-pod'', 12)]
   \<and> map_sum id (map pods0) (ParseAllThreeLists0
     [\<lparr>pr_Kind = ''PipelineRun'',
       pr_Meta = \<lparr>Namespace = ''ci'', Name = ''run-1'', Labels = []\<rparr>,
       pr_Status = \<lparr>StartTime = Some 1000000000, CompletionTime = Some 101000000000,
                     Succeeded = Some ConditionTrue\<rparr>\<rparr>]
     [\<lparr>tr_Kind = ''TaskRun'',
       tr_Meta = \<lparr>Namespace = ''ci'', Name = ''run-1-build'', Labels = []\<rparr>,
       tr_Status = \<lparr>StartTime = Some 1000000000, CompletionTime = Some 31000000000,
                     Succeeded = Some ConditionTrue\<rparr>\<rparr>]
     [\<lparr>pod_Kind = ''Pod'',
       pod_Meta = \<lparr>Namespace = ''ci'', Name = ''run-1-build-pod'',
                   Labels = [(''tekton.dev/pipelineRun'', ''run-1'')]\<rparr>,
       Containers = [\<lparr>c_Name = ''step-a''\<rparr>, \<lparr>c_Name = ''step-b''\<rparr>],
       pod_StartTime = Some 1000000000, Phase = PodSucceeded,
       ContainerStatuses =
         [\<lparr>cs_Name = ''step-b'',
           Terminated = Some \<lparr>StartedAt = 2000000000, FinishedAt = 21000000000\<rparr>\<rparr>,
          \<lparr>cs_Name = ''step-a'',
           Terminated = Some \<lparr>StartedAt = 2000000000, FinishedAt = 13000000000\<rparr>\<rparr>]\<rparr>])
     = Inr [12]
   \<and> Seconds (Sub (max 21000000000 13000000000) 1000000000) = 20
   \<and> map_sum id (\<lambda>m. map_of (toDuration m) ''ci:run-1-build-pod'')
       (processPod
         \<lparr>pod_Kind = ''Pod'',
          pod_Meta = \<lparr>Namespace = ''ci'', Name = ''run-1-build-pod'',
                      Labels = [(''tekton.dev/pipelineRun'', ''run-1'')]\<rparr>,
          Containers = [\<lparr>c_Name = ''step-a''\<rparr>, \<lparr>c_Name = ''step-b''\<rparr>],
          pod_StartTime = Some 1000000000, Phase = PodSucceeded,
          ContainerStatuses =
            [\<lparr>cs_Name = ''step-b'',
              Terminated = Some \<lparr>StartedAt = 2000000000, FinishedAt = 21000000000\<rparr>\<rparr>,
             \<lparr>cs_Name = ''step-a'',
              Terminated = Some \<lparr>StartedAt = 2000000000, FinishedAt = 13000000000\<rparr>\<rparr>]\<rparr>
         no_maps)
     = Inr (Some 20)"
  by (simp add: ParsePodList0_def ParseAllThreeLists0_def podKeyOf_def prKeyOf_def objKey_def
      HasStarted_def IsDone_def HasPrefix_def zeroTime_def lookupSeconds_def fdiv_def
      Seconds_def Sub_def minDuration_def maxDuration_def Let_def processPod_def After_def
      recordWindow_def no_maps_def)

text \<open>
  C7 fails in \<open>src/main.go\<close> for a pod without a terminated container status. The run
  took 100 s, its task run 30 s, and the task run's pod has no terminated status, so its
  own duration is 0 s as the pod-list command of the same revision reports it. The
  command for all three lists reports a pod total of 30 s: the variable \<open>duration\<close> still
  holds the task run's duration when it is added to the pod total. Delta and percentage
  follow from that total: 70 and 3/10 in place of 100 and 0.
\<close>

theorem stale_duration_in_pod_total:
  "ParseAllThreeLists0
     [\<lparr>pr_Kind = ''PipelineRun'',
       pr_Meta = \<lparr>Namespace = ''ci'', Name = ''run-1'', Labels = []\<rparr>,
       pr_Status = \<lparr>StartTime = Some 1000000000, CompletionTime = Some 101000000000,
                     Succeeded = Some ConditionTrue\<rparr>\<rparr>]
     [\<lparr>tr_Kind = ''TaskRun'',
       tr_Meta = \<lparr>Namespace = ''ci'', Name = ''run-1-build'', Labels = []\<rparr>,
       tr_Status = \<lparr>StartTime = Some 1000000000, CompletionTime = Some 31000000000,
                     Succeeded = Some ConditionTrue\<rparr>\<rparr>]
     [\<lparr>pod_Kind = ''Pod'',
       pod_Meta = \<lparr>Namespace = ''ci'', Name = ''run-1-build-pod'',
                   Labels = [(''tekton.dev/pipelineRun'', ''run-1'')]\<rparr>,
       Containers = [\<lparr>c_Name = ''step-a''\<rparr>],
       pod_StartTime = Some 2000000000, Phase = PodFailed,
       ContainerStatuses = [\<lparr>cs_Name = ''step-a'', Terminated = None\<rparr>]\<rparr>]
     = Inr [\<lparr>run0 = ''ci:run-1'', took0 = 100, taskruns0 = 30, taskrunsDelta0 = 70,
             taskrunsPercent0 = Ratio (3 / 10), pods0 = 30, podsDelta0 = 70,
             podsPercent0 = Ratio (3 / 10)\<rparr>]
   \<and> ParsePodList0
     [\<lparr>pod_Kind = ''Pod'',
       pod_Meta = \<lparr>Namespace = ''ci'', Name = ''run-1-build-pod'',
                   Labels = [(''tekton.dev/pipelineRun'', ''run-1'')]\<rparr>,
       Containers = [\<lparr>c_Name = ''step-a''\<rparr>],
       pod_StartTime = Some 2000000000, Phase = PodFailed,
       ContainerStatuses = [\<lparr>cs_Name = ''step-a'', Terminated = None\<rparr>]\<rparr>]
     = [(''ci:run-1-build-pod'', 0)]"
  by (simp add: ParsePodList0_def ParseAllThreeLists0_def podKeyOf_def prKeyOf_def objKey_def
      HasStarted_def IsDone_def HasPrefix_def zeroTime_def lookupSeconds_def fdiv_def
      Seconds_def Sub_def minDuration_def maxDuration_def Let_def)

end
